theory Spec2Isabelle
  imports Complex_Main
begin

section \<open>The CodeBuild custom-resource handler (start\_build.py)\<close>

text \<open>
  A shallow embedding of \<^verbatim>\<open>src/dependencies/code_builder/start_build.py\<close>: the callback
  reporter \<^verbatim>\<open>send\<close> and the build supervisor \<^verbatim>\<open>lambda_handler\<close>.

  Everything outside the file (the CodeBuild client, the process environment, the clock of the
  execution context, \<^verbatim>\<open>time.sleep\<close> and the HTTP pool) is a deterministic environment: each
  call is answered by a function of the history of calls made so far, and may raise. The
  history is threaded through the model as a list of actions, oldest first, so that the
  theorems can count callbacks and status queries and say what came before what. Output on
  stdout (\<^verbatim>\<open>print\<close>) is not modelled.
\<close>

subsection \<open>Python values, exceptions and strings\<close>

text \<open>
  The values an event, a report or a keyword argument can hold: the JSON fragment of Python
  without floats. A \<^verbatim>\<open>str\<close> is a \<^typ>\<open>string\<close>, one \<^typ>\<open>char\<close> per code point
  (code points 0 to 255); a \<^verbatim>\<open>dict\<close> keeps its insertion order, as \<^verbatim>\<open>json.dumps\<close> prints it.
\<close>

datatype pyval =
    PNone
  | PBool bool
  | PInt int
  | PStr string
  | PList "pyval list"
  | PDict "(string \<times> pyval) list"

text \<open>
  Exceptions, all of them subclasses of \<^verbatim>\<open>Exception\<close>: the two the subscripts of the source
  raise themselves, and what a library call raises, kept by its \<^verbatim>\<open>str()\<close> text.
\<close>

datatype exn =
    KeyError string
  | IndexError string
  | Exception string

text \<open>
  \<^verbatim>\<open>str(e)\<close>. The text of a \<^verbatim>\<open>KeyError\<close> is the \<^verbatim>\<open>repr\<close> of the key; every key the
  source subscripts with is a literal of letters and underscores, whose \<^verbatim>\<open>repr\<close> is the key in
  single quotes.
\<close>

fun str_exn :: "exn \<Rightarrow> string" where
  "str_exn (KeyError k) = [CHR 0x27] @ k @ [CHR 0x27]"
| "str_exn (IndexError m) = m"
| "str_exn (Exception m) = m"

text \<open>\<^verbatim>\<open>d[k]\<close> on a dict.\<close>

definition getitem :: "(string \<rightharpoonup> 'v) \<Rightarrow> string \<Rightarrow> exn + 'v" where
  "getitem d k = (case d k of None \<Rightarrow> Inl (KeyError k) | Some v \<Rightarrow> Inr v)"

text \<open>\<^verbatim>\<open>xs[0]\<close> on a list.\<close>

definition getitem0 :: "'v list \<Rightarrow> exn + 'v" where
  "getitem0 xs = (case xs of [] \<Rightarrow> Inl (IndexError ''list index out of range'') | x # _ \<Rightarrow> Inr x)"

text \<open>Truth value testing, and \<^verbatim>\<open>a or b\<close>.\<close>

fun truthy :: "pyval \<Rightarrow> bool" where
  "truthy PNone = False"
| "truthy (PBool b) = b"
| "truthy (PInt i) = (i \<noteq> 0)"
| "truthy (PStr s) = (s \<noteq> [])"
| "truthy (PList vs) = (vs \<noteq> [])"
| "truthy (PDict kvs) = (kvs \<noteq> [])"

definition py_or :: "pyval \<Rightarrow> pyval \<Rightarrow> pyval" where
  "py_or a b = (if truthy a then a else b)"

text \<open>\<^verbatim>\<open>str(n)\<close> of an integer: its decimal digits.\<close>

definition digit_char :: "nat \<Rightarrow> char" where
  "digit_char d = char_of (48 + d)"

fun str_nat :: "nat \<Rightarrow> string" where
  "str_nat n = (if n < 10 then [digit_char n] else str_nat (n div 10) @ [digit_char (n mod 10)])"

declare str_nat.simps [simp del]

definition str_int :: "int \<Rightarrow> string" where
  "str_int i = (if i < 0 then CHR ''-'' # str_nat (nat (- i)) else str_nat (nat i))"

subsection \<open>json.dumps\<close>

text \<open>
  \<^verbatim>\<open>json.dumps\<close> with its defaults (\<^verbatim>\<open>ensure_ascii=True\<close>, separators \<^verbatim>\<open>', '\<close> and
  \<^verbatim>\<open>': '\<close>). Inside a string a quote, a backslash and the five short control escapes are
  escaped by name, every other character outside space to tilde as \<^verbatim>\<open>\u00xx\<close> (lower-case
  hexadecimal), and the rest is copied.
\<close>

definition hex_char :: "nat \<Rightarrow> char" where
  "hex_char d = (if d < 10 then char_of (48 + d) else char_of (87 + d))"

definition escape_char :: "char \<Rightarrow> string" where
  "escape_char c =
     (if c = CHR 0x22 then [CHR 0x5C, CHR 0x22]
      else if c = CHR 0x5C then [CHR 0x5C, CHR 0x5C]
      else if c = CHR 0x0A then [CHR 0x5C, CHR ''n'']
      else if c = CHR 0x0D then [CHR 0x5C, CHR ''r'']
      else if c = CHR 0x09 then [CHR 0x5C, CHR ''t'']
      else if c = CHR 0x08 then [CHR 0x5C, CHR ''b'']
      else if c = CHR 0x0C then [CHR 0x5C, CHR ''f'']
      else if 32 \<le> (of_char c :: nat) \<and> (of_char c :: nat) \<le> 126 then [c]
      else [CHR 0x5C, CHR ''u'', CHR ''0'', CHR ''0'',
            hex_char ((of_char c :: nat) div 16), hex_char ((of_char c :: nat) mod 16)])"

definition encode_basestring_ascii :: "string \<Rightarrow> string" where
  "encode_basestring_ascii s = [CHR 0x22] @ concat (map escape_char s) @ [CHR 0x22]"

fun join :: "string \<Rightarrow> string list \<Rightarrow> string" where
  "join sep [] = []"
| "join sep [x] = x"
| "join sep (x # y # ys) = x @ sep @ join sep (y # ys)"

fun json_dumps :: "pyval \<Rightarrow> string" where
  "json_dumps PNone = ''null''"
| "json_dumps (PBool b) = (if b then ''true'' else ''false'')"
| "json_dumps (PInt i) = str_int i"
| "json_dumps (PStr s) = encode_basestring_ascii s"
| "json_dumps (PList vs) = ''['' @ join '', '' (map json_dumps vs) @ '']''"
| "json_dumps (PDict kvs) =
     ''{'' @ join '', ''
        (map (\<lambda>(k, v). encode_basestring_ascii k @ '': '' @ json_dumps v) kvs) @ ''}''"

text \<open>
  The bytes a \<^verbatim>\<open>str\<close> is sent as: UTF-8, one byte below code point 128 and two from there to
  255.
\<close>

definition utf8_char :: "char \<Rightarrow> nat list" where
  "utf8_char c =
     (let n = (of_char c :: nat)
      in if n < 128 then [n] else [192 + n div 64, 128 + n mod 64])"

definition utf8_encode :: "string \<Rightarrow> nat list" where
  "utf8_encode s = concat (map utf8_char s)"

subsection \<open>The environment\<close>

text \<open>
  The two CodeBuild responses, as far as the handler reads them:
  \<^verbatim>\<open>response['build']['id']\<close> and \<^verbatim>\<open>build_status['builds'][0]['buildStatus']\<close>.
\<close>

type_synonym start_build_response = "string \<rightharpoonup> (string \<rightharpoonup> string)"

type_synonym batch_get_builds_response = "string \<rightharpoonup> (string \<rightharpoonup> string) list"

text \<open>
  What the handler does to the outside, in the order it does it, each call with its answer
  (an exception raised, or the value returned): \<^verbatim>\<open>boto3.client\<close> (\<open>None\<close>: a client is
  returned), \<^verbatim>\<open>codebuild.start_build\<close>, \<^verbatim>\<open>context.get_remaining_time_in_millis\<close>,
  \<^verbatim>\<open>codebuild.batch_get_builds\<close>, \<^verbatim>\<open>time.sleep\<close> and \<^verbatim>\<open>http.request\<close> with its method,
  URL, headers and body, answered by the status code of the response.
\<close>

datatype action =
    Boto3Client string "exn option"
  | StartBuild string "exn + start_build_response"
  | GetRemainingTime "exn + int"
  | BatchGetBuilds "string list" "exn + batch_get_builds_response"
  | Sleep nat "exn option"
  | HttpRequest string pyval "(string \<times> string) list" string "exn + int"

type_synonym history = "action list"

type_synonym event = "string \<rightharpoonup> pyval"

text \<open>
  The execution context of the host: \<^verbatim>\<open>context.log_stream_name\<close> and
  \<^verbatim>\<open>context.get_remaining_time_in_millis()\<close>, in milliseconds.
\<close>

record lambda_context =
  log_stream_name :: string
  get_remaining_time_in_millis :: "history \<Rightarrow> exn + int"

text \<open>The rest of the outside: \<^verbatim>\<open>os.environ\<close> and the library calls.\<close>

record world =
  environ :: "string \<rightharpoonup> string"
  boto3_client :: "history \<Rightarrow> string \<Rightarrow> exn option"
  start_build :: "history \<Rightarrow> string \<Rightarrow> exn + start_build_response"
  batch_get_builds :: "history \<Rightarrow> string list \<Rightarrow> exn + batch_get_builds_response"
  time_sleep :: "history \<Rightarrow> nat \<Rightarrow> exn option"
  http_request ::
    "history \<Rightarrow> string \<Rightarrow> pyval \<Rightarrow> (string \<times> string) list \<Rightarrow> string \<Rightarrow> exn + int"

subsection \<open>send\<close>

text \<open>
  Lines 9 to 42. The subscripts of the event and the serialisation stand outside the
  \<^verbatim>\<open>try\<close>: a missing key raises out of \<^verbatim>\<open>send\<close>. Whatever \<^verbatim>\<open>http.request\<close> raises is
  caught and answered with the empty dict; the status code of a response is printed and not
  looked at.
\<close>

definition send ::
  "world \<Rightarrow> event \<Rightarrow> lambda_context \<Rightarrow> pyval \<Rightarrow> pyval \<Rightarrow> pyval \<Rightarrow> pyval \<Rightarrow> pyval \<Rightarrow>
   history \<Rightarrow> (exn + pyval) \<times> history" where
  "send w event context responseStatus responseData physicalResourceId noEcho reason h =
     (case getitem event ''ResponseURL'' of
        Inl e \<Rightarrow> (Inl e, h)
      | Inr responseUrl \<Rightarrow>
     (case getitem event ''StackId'' of
        Inl e \<Rightarrow> (Inl e, h)
      | Inr stackId \<Rightarrow>
     (case getitem event ''RequestId'' of
        Inl e \<Rightarrow> (Inl e, h)
      | Inr requestId \<Rightarrow>
     (case getitem event ''LogicalResourceId'' of
        Inl e \<Rightarrow> (Inl e, h)
      | Inr logicalResourceId \<Rightarrow>
       (let responseBody = PDict
              [(''Status'', responseStatus),
               (''Reason'', py_or reason
                  (PStr (''See the details in CloudWatch Log Stream: '' @ log_stream_name context))),
               (''PhysicalResourceId'', py_or physicalResourceId (PStr (log_stream_name context))),
               (''StackId'', stackId),
               (''RequestId'', requestId),
               (''LogicalResourceId'', logicalResourceId),
               (''NoEcho'', noEcho),
               (''Data'', responseData)];
            json_responseBody = json_dumps responseBody;
            headers =
              [(''content-type'', ''''),
               (''content-length'', str_int (int (length json_responseBody)))];
            response = http_request w h ''PUT'' responseUrl headers json_responseBody;
            h' = h @ [HttpRequest ''PUT'' responseUrl headers json_responseBody response]
        in case response of
             Inr status \<Rightarrow> (Inr responseBody, h')
           | Inl e \<Rightarrow> (Inr (PDict []), h'))))))"

subsection \<open>lambda\_handler\<close>

definition max_wait_time :: nat where
  "max_wait_time = 900"

definition wait_interval :: nat where
  "wait_interval = 30"

text \<open>Line 57: \<^verbatim>\<open>response['build']['id']\<close>.\<close>

definition build_id_of :: "start_build_response \<Rightarrow> exn + string" where
  "build_id_of response =
     (case getitem response ''build'' of
        Inl e \<Rightarrow> Inl e
      | Inr build \<Rightarrow> getitem build ''id'')"

text \<open>Line 77: \<^verbatim>\<open>build_status['builds'][0]['buildStatus']\<close>.\<close>

definition buildStatus_of :: "batch_get_builds_response \<Rightarrow> exn + string" where
  "buildStatus_of build_status =
     (case getitem build_status ''builds'' of
        Inl e \<Rightarrow> Inl e
      | Inr builds \<Rightarrow>
     (case getitem0 builds of
        Inl e \<Rightarrow> Inl e
      | Inr build \<Rightarrow> getitem build ''buildStatus''))"

text \<open>
  The body of the \<^verbatim>\<open>while\<close> loop, lines 67 to 95. \<open>Some r\<close>: the iteration left the loop,
  returning or raising \<open>r\<close>; \<open>None\<close>: it slept and the loop goes on. The remaining time is
  divided and compared exactly: Python's true division of an integer by 1000 is correctly
  rounded and 60 is a float, so the float is below 60 exactly when the quotient is.
\<close>

definition poll_iteration ::
  "world \<Rightarrow> event \<Rightarrow> lambda_context \<Rightarrow> string \<Rightarrow> history \<Rightarrow> (exn + string) option \<times> history" where
  "poll_iteration w event context build_id h =
     (let millis = get_remaining_time_in_millis context h;
          h1 = h @ [GetRemainingTime millis]
      in case millis of
           Inl e \<Rightarrow> (Some (Inl e), h1)
         | Inr millis \<Rightarrow>
          (let remaining_time = real_of_int millis / 1000
           in if remaining_time < 60 then
                (case send w event context (PStr ''FAILED'')
                        (PDict [(''message'', PStr (''Lambda timeout approaching. Build '' @
                           build_id @ '' still running. Please check CodeBuild console.''))])
                        PNone (PBool False) PNone h1 of
                   (Inl e, h2) \<Rightarrow> (Some (Inl e), h2)
                 | (Inr _, h2) \<Rightarrow>
                     (Some (Inr ''{ \"status\": 500, \"message\": \"timeout\" }''), h2))
              else
                (let build_status = batch_get_builds w h1 [build_id];
                     h2 = h1 @ [BatchGetBuilds [build_id] build_status]
                 in case build_status of
                      Inl e \<Rightarrow> (Some (Inl e), h2)
                    | Inr build_status \<Rightarrow>
                   (case buildStatus_of build_status of
                      Inl e \<Rightarrow> (Some (Inl e), h2)
                    | Inr status \<Rightarrow>
                      if status = ''SUCCEEDED'' then
                        (case send w event context (PStr ''SUCCESS'')
                                (PDict [(''message'', PStr
                                   (''CodeBuild project completed successfully. Build ID: '' @
                                    build_id))])
                                PNone (PBool False) PNone h2 of
                           (Inl e, h3) \<Rightarrow> (Some (Inl e), h3)
                         | (Inr _, h3) \<Rightarrow>
                             (Some (Inr ''{ \"status\": 200, \"message\": \"success\" }''), h3))
                      else if status \<in> set [''FAILED'', ''FAULT'', ''STOPPED'', ''TIMED_OUT''] then
                        (let error_msg = ''CodeBuild '' @ status @ ''. Build ID: '' @ build_id @
                               ''. Check CloudWatch logs.''
                         in case send w event context (PStr ''FAILED'')
                                   (PDict [(''message'', PStr error_msg)])
                                   PNone (PBool False) PNone h2 of
                              (Inl e, h3) \<Rightarrow> (Some (Inl e), h3)
                            | (Inr _, h3) \<Rightarrow>
                                (Some (Inr ''{ \"status\": 500, \"message\": \"build_failed\" }''), h3))
                      else
                        (let slept = time_sleep w h2 wait_interval;
                             h3 = h2 @ [Sleep wait_interval slept]
                         in case slept of
                              Some e \<Rightarrow> (Some (Inl e), h3)
                            | None \<Rightarrow> (None, h3))))))"

text \<open>
  The loop, lines 66 to 102, with what follows it: when the elapsed time reaches the budget the
  handler reports that the build did not complete and returns.
\<close>

function poll_loop ::
  "world \<Rightarrow> event \<Rightarrow> lambda_context \<Rightarrow> string \<Rightarrow> nat \<Rightarrow> history \<Rightarrow> (exn + string) \<times> history" where
  "poll_loop w event context build_id elapsed_time h =
     (if elapsed_time < max_wait_time then
        (case poll_iteration w event context build_id h of
           (Some r, h') \<Rightarrow> (r, h')
         | (None, h') \<Rightarrow> poll_loop w event context build_id (elapsed_time + wait_interval) h')
      else
        (case send w event context (PStr ''FAILED'')
                (PDict [(''message'', PStr (''CodeBuild did not complete within '' @
                   str_int (int max_wait_time) @ ''s. Build ID: '' @ build_id))])
                PNone (PBool False) PNone h of
           (Inl e, h') \<Rightarrow> (Inl e, h')
         | (Inr _, h') \<Rightarrow> (Inr ''{ \"status\": 500, \"message\": \"timeout\" }'', h')))"
  by pat_completeness auto
termination
  by (relation "measure (\<lambda>(w, event, context, build_id, elapsed_time, h). max_wait_time - elapsed_time)")
     (auto simp: max_wait_time_def wait_interval_def)

declare poll_loop.simps [simp del]

text \<open>
  The body of the \<^verbatim>\<open>try\<close>, lines 49 to 102. \<^verbatim>\<open>os.environ['PROJECT_NAME']\<close> is read for the
  log line before the build is started.
\<close>

definition try_block :: "world \<Rightarrow> event \<Rightarrow> lambda_context \<Rightarrow> history \<Rightarrow> (exn + string) \<times> history" where
  "try_block w event context h =
     (let codebuild = boto3_client w h ''codebuild'';
          h1 = h @ [Boto3Client ''codebuild'' codebuild]
      in case codebuild of
           Some e \<Rightarrow> (Inl e, h1)
         | None \<Rightarrow>
        (case getitem (environ w) ''PROJECT_NAME'' of
           Inl e \<Rightarrow> (Inl e, h1)
         | Inr projectName \<Rightarrow>
          (let response = start_build w h1 projectName;
               h2 = h1 @ [StartBuild projectName response]
           in case response of
                Inl e \<Rightarrow> (Inl e, h2)
              | Inr response \<Rightarrow>
             (case build_id_of response of
                Inl e \<Rightarrow> (Inl e, h2)
              | Inr build_id \<Rightarrow> poll_loop w event context build_id 0 h2))))"

text \<open>
  Lines 45 to 112. The subscript \<^verbatim>\<open>event['RequestType']\<close> and the \<^verbatim>\<open>send\<close> of the
  \<^verbatim>\<open>except\<close> and \<^verbatim>\<open>else\<close> branches stand outside the \<^verbatim>\<open>try\<close>: what they raise leaves the
  handler.
\<close>

definition lambda_handler :: "world \<Rightarrow> event \<Rightarrow> lambda_context \<Rightarrow> history \<Rightarrow> (exn + string) \<times> history" where
  "lambda_handler w event context h =
     (case getitem event ''RequestType'' of
        Inl e \<Rightarrow> (Inl e, h)
      | Inr requestType \<Rightarrow>
          if requestType = PStr ''Create'' then
            (case try_block w event context h of
               (Inr r, h') \<Rightarrow> (Inr r, h')
             | (Inl e, h') \<Rightarrow>
                (let error_msg = ''Error: '' @ str_exn e
                 in case send w event context (PStr ''FAILED'')
                           (PDict [(''message'', PStr error_msg)])
                           PNone (PBool False) PNone h' of
                      (Inl e', h'') \<Rightarrow> (Inl e', h'')
                    | (Inr _, h'') \<Rightarrow> (Inr ''{ \"status\": 500, \"message\": \"error\" }'', h'')))
          else
            (case send w event context (PStr ''SUCCESS'')
                    (PDict [(''message'', PStr ''No action required'')])
                    PNone (PBool False) PNone h of
               (Inl e, h') \<Rightarrow> (Inl e, h')
             | (Inr _, h') \<Rightarrow> (Inr ''{ \"status\": 200, \"message\": \"success\" }'', h')))"

section \<open>What the specification talks about\<close>

subsection \<open>Events, reports and callbacks\<close>

text \<open>A character that UTF-8 sends as one byte.\<close>

definition ascii :: "char \<Rightarrow> bool" where
  "ascii c = ((of_char c :: nat) < 128)"

text \<open>
  The incoming event of the specification (section 6): a mapping that has the five required
  fields, whatever their values.
\<close>

definition required_fields :: "event \<Rightarrow> bool" where
  "required_fields event =
     (event ''RequestType'' \<noteq> None \<and> event ''ResponseURL'' \<noteq> None \<and> event ''StackId'' \<noteq> None \<and>
      event ''RequestId'' \<noteq> None \<and> event ''LogicalResourceId'' \<noteq> None)"

text \<open>
  The outgoing callback of the specification (section 6), as the handler sends it: a status, a
  message as the data payload, and the defaults for the reason, the physical resource
  identifier and the echo flag. It is compared below with what \<^const>\<open>send\<close> builds.
\<close>

definition callback_report :: "event \<Rightarrow> lambda_context \<Rightarrow> string \<Rightarrow> string \<Rightarrow> pyval" where
  "callback_report event context status message = PDict
     [(''Status'', PStr status),
      (''Reason'', PStr (''See the details in CloudWatch Log Stream: '' @ log_stream_name context)),
      (''PhysicalResourceId'', PStr (log_stream_name context)),
      (''StackId'', the (event ''StackId'')),
      (''RequestId'', the (event ''RequestId'')),
      (''LogicalResourceId'', the (event ''LogicalResourceId'')),
      (''NoEcho'', PBool False),
      (''Data'', PDict [(''message'', PStr message)])]"

text \<open>
  The HTTP request of the specification: a PUT to the URL of the event, with an empty content
  type, the byte length of the body as the content length, and the serialised report as the
  body. The last argument is the answer the pool gave.
\<close>

definition callback :: "event \<Rightarrow> lambda_context \<Rightarrow> string \<Rightarrow> string \<Rightarrow> exn + int \<Rightarrow> action" where
  "callback event context status message response =
     (let body = json_dumps (callback_report event context status message)
      in HttpRequest ''PUT'' (the (event ''ResponseURL''))
           [(''content-type'', ''''), (''content-length'', str_int (int (length (utf8_encode body))))]
           body response)"

subsection \<open>Observations on a history\<close>

fun is_callback :: "action \<Rightarrow> bool" where
  "is_callback (HttpRequest method url headers body response) = True"
| "is_callback a = False"

fun is_status_query :: "action \<Rightarrow> bool" where
  "is_status_query (BatchGetBuilds ids response) = True"
| "is_status_query a = False"

fun is_build_trigger :: "action \<Rightarrow> bool" where
  "is_build_trigger (StartBuild projectName response) = True"
| "is_build_trigger a = False"

fun is_time_check :: "action \<Rightarrow> bool" where
  "is_time_check (GetRemainingTime millis) = True"
| "is_time_check a = False"

subsection \<open>The state machine of the build supervisor\<close>

text \<open>
  Section 4.2 of the specification as relations between what the handler did (the actions it
  added to the history) and how it ended. They are stated with no reference to the code and
  are proved below to contain every execution of the code on an event with the required
  fields.

  One iteration of the poll loop: the outcome is \<open>Some\<close> of an exception or of the returned
  payload when the iteration leaves the loop, and \<open>None\<close> when the build is still in
  progress.
\<close>

definition failed_statuses :: "string set" where
  "failed_statuses = {''FAILED'', ''FAULT'', ''STOPPED'', ''TIMED_OUT''}"

inductive iteration_run :: "event \<Rightarrow> lambda_context \<Rightarrow> string \<Rightarrow> history \<Rightarrow> (exn + string) option \<Rightarrow> bool"
  for event ctx build_id where
  check_raises:
    "iteration_run event ctx build_id [GetRemainingTime (Inl e)] (Some (Inl e))"
| timeout_imminent:
    "real_of_int millis / 1000 < 60 \<Longrightarrow>
     iteration_run event ctx build_id
       [GetRemainingTime (Inr millis),
        callback event ctx ''FAILED''
          (''Lambda timeout approaching. Build '' @ build_id @
           '' still running. Please check CodeBuild console.'') response]
       (Some (Inr ''{ \"status\": 500, \"message\": \"timeout\" }''))"
| query_raises:
    "\<not> real_of_int millis / 1000 < 60 \<Longrightarrow>
     iteration_run event ctx build_id
       [GetRemainingTime (Inr millis), BatchGetBuilds [build_id] (Inl e)] (Some (Inl e))"
| status_unreadable:
    "\<not> real_of_int millis / 1000 < 60 \<Longrightarrow> buildStatus_of build_status = Inl e \<Longrightarrow>
     iteration_run event ctx build_id
       [GetRemainingTime (Inr millis), BatchGetBuilds [build_id] (Inr build_status)] (Some (Inl e))"
| succeeded:
    "\<not> real_of_int millis / 1000 < 60 \<Longrightarrow> buildStatus_of build_status = Inr ''SUCCEEDED'' \<Longrightarrow>
     iteration_run event ctx build_id
       [GetRemainingTime (Inr millis), BatchGetBuilds [build_id] (Inr build_status),
        callback event ctx ''SUCCESS''
          (''CodeBuild project completed successfully. Build ID: '' @ build_id) response]
       (Some (Inr ''{ \"status\": 200, \"message\": \"success\" }''))"
| build_failed:
    "\<not> real_of_int millis / 1000 < 60 \<Longrightarrow> buildStatus_of build_status = Inr status \<Longrightarrow>
     status \<in> failed_statuses \<Longrightarrow>
     iteration_run event ctx build_id
       [GetRemainingTime (Inr millis), BatchGetBuilds [build_id] (Inr build_status),
        callback event ctx ''FAILED''
          (''CodeBuild '' @ status @ ''. Build ID: '' @ build_id @ ''. Check CloudWatch logs.'')
          response]
       (Some (Inr ''{ \"status\": 500, \"message\": \"build_failed\" }''))"
| sleep_raises:
    "\<not> real_of_int millis / 1000 < 60 \<Longrightarrow> buildStatus_of build_status = Inr status \<Longrightarrow>
     status \<noteq> ''SUCCEEDED'' \<Longrightarrow> status \<notin> failed_statuses \<Longrightarrow>
     iteration_run event ctx build_id
       [GetRemainingTime (Inr millis), BatchGetBuilds [build_id] (Inr build_status),
        Sleep 30 (Some e)]
       (Some (Inl e))"
| in_progress:
    "\<not> real_of_int millis / 1000 < 60 \<Longrightarrow> buildStatus_of build_status = Inr status \<Longrightarrow>
     status \<noteq> ''SUCCEEDED'' \<Longrightarrow> status \<notin> failed_statuses \<Longrightarrow>
     iteration_run event ctx build_id
       [GetRemainingTime (Inr millis), BatchGetBuilds [build_id] (Inr build_status),
        Sleep 30 None]
       None"

text \<open>The poll loop from an elapsed time on, with the report that follows an exhausted budget.\<close>

inductive poll_run :: "event \<Rightarrow> lambda_context \<Rightarrow> string \<Rightarrow> nat \<Rightarrow> history \<Rightarrow> exn + string \<Rightarrow> bool"
  for event ctx build_id where
  budget_exhausted:
    "900 \<le> elapsed_time \<Longrightarrow>
     poll_run event ctx build_id elapsed_time
       [callback event ctx ''FAILED''
          (''CodeBuild did not complete within 900s. Build ID: '' @ build_id) response]
       (Inr ''{ \"status\": 500, \"message\": \"timeout\" }'')"
| leaves:
    "elapsed_time < 900 \<Longrightarrow> iteration_run event ctx build_id seg (Some r) \<Longrightarrow>
     poll_run event ctx build_id elapsed_time seg r"
| goes_on:
    "elapsed_time < 900 \<Longrightarrow> iteration_run event ctx build_id seg None \<Longrightarrow>
     poll_run event ctx build_id (elapsed_time + 30) rest r \<Longrightarrow>
     poll_run event ctx build_id elapsed_time (seg @ rest) r"

text \<open>The guarded block of a create event: the trigger, then the poll loop.\<close>

inductive create_run :: "event \<Rightarrow> lambda_context \<Rightarrow> history \<Rightarrow> exn + string \<Rightarrow> bool"
  for event ctx where
  client_raises:
    "create_run event ctx [Boto3Client ''codebuild'' (Some e)] (Inl e)"
| project_unset:
    "create_run event ctx [Boto3Client ''codebuild'' None] (Inl (KeyError ''PROJECT_NAME''))"
| start_raises:
    "create_run event ctx
       [Boto3Client ''codebuild'' None, StartBuild projectName (Inl e)] (Inl e)"
| id_unreadable:
    "build_id_of response = Inl e \<Longrightarrow>
     create_run event ctx
       [Boto3Client ''codebuild'' None, StartBuild projectName (Inr response)] (Inl e)"
| polls:
    "build_id_of response = Inr build_id \<Longrightarrow> poll_run event ctx build_id 0 seg r \<Longrightarrow>
     create_run event ctx
       (Boto3Client ''codebuild'' None # StartBuild projectName (Inr response) # seg) r"

text \<open>A whole invocation, with the handler of the exceptions of the guarded block.\<close>

inductive handler_run :: "event \<Rightarrow> lambda_context \<Rightarrow> history \<Rightarrow> string \<Rightarrow> bool"
  for event ctx where
  no_action:
    "event ''RequestType'' \<noteq> Some (PStr ''Create'') \<Longrightarrow>
     handler_run event ctx
       [callback event ctx ''SUCCESS'' ''No action required'' response]
       ''{ \"status\": 200, \"message\": \"success\" }''"
| returned:
    "event ''RequestType'' = Some (PStr ''Create'') \<Longrightarrow> create_run event ctx seg (Inr r) \<Longrightarrow>
     handler_run event ctx seg r"
| caught:
    "event ''RequestType'' = Some (PStr ''Create'') \<Longrightarrow> create_run event ctx seg (Inl e) \<Longrightarrow>
     handler_run event ctx
       (seg @ [callback event ctx ''FAILED'' (''Error: '' @ str_exn e) response])
       ''{ \"status\": 500, \"message\": \"error\" }''"

text \<open>The callbacks, status queries, build triggers and time checks of a history.\<close>

definition callbacks :: "history \<Rightarrow> history" where
  "callbacks h = filter is_callback h"

definition status_queries :: "history \<Rightarrow> history" where
  "status_queries h = filter is_status_query h"

definition build_triggers :: "history \<Rightarrow> history" where
  "build_triggers h = filter is_build_trigger h"

definition time_checks :: "history \<Rightarrow> history" where
  "time_checks h = filter is_time_check h"

subsection \<open>Example inputs\<close>

text \<open>
  A create event and an update event, a context whose clock always answers the same, and a
  world in which the client is created, the project is \<^verbatim>\<open>mirror\<close>, and the trigger, the
  build status and the HTTP pool answer as given.
\<close>

definition example_event :: event where
  "example_event =
     [''RequestType'' \<mapsto> PStr ''Create'',
      ''ResponseURL'' \<mapsto> PStr ''https://cfn.example/callback'',
      ''StackId'' \<mapsto> PStr ''stack-1'',
      ''RequestId'' \<mapsto> PStr ''request-1'',
      ''LogicalResourceId'' \<mapsto> PStr ''Mirror'']"

definition update_event :: event where
  "update_event = example_event(''RequestType'' \<mapsto> PStr ''Update'')"

definition example_context :: "int \<Rightarrow> lambda_context" where
  "example_context millis =
     \<lparr>log_stream_name = ''stream-1'', get_remaining_time_in_millis = (\<lambda>h. Inr millis)\<rparr>"

definition example_started :: "exn + start_build_response" where
  "example_started = Inr [''build'' \<mapsto> [''id'' \<mapsto> ''mirror:1'']]"

definition example_builds :: "string \<Rightarrow> batch_get_builds_response" where
  "example_builds status = [''builds'' \<mapsto> [[''buildStatus'' \<mapsto> status]]]"

definition example_world :: "exn + start_build_response \<Rightarrow> string \<Rightarrow> exn + int \<Rightarrow> world" where
  "example_world started status put =
     \<lparr>environ = [''PROJECT_NAME'' \<mapsto> ''mirror''],
      boto3_client = (\<lambda>h name. None),
      start_build = (\<lambda>h projectName. started),
      batch_get_builds = (\<lambda>h ids. Inr (example_builds status)),
      time_sleep = (\<lambda>h seconds. None),
      http_request = (\<lambda>h method url headers body. put)\<rparr>"

text \<open>What the handler does on the create event when the clock is at 50 seconds, and when the
  first status query is answered with a final status.\<close>

definition timeout_run :: history where
  "timeout_run =
     [Boto3Client ''codebuild'' None, StartBuild ''mirror'' example_started,
      GetRemainingTime (Inr 50000),
      callback example_event (example_context 50000) ''FAILED''
        ''Lambda timeout approaching. Build mirror:1 still running. Please check CodeBuild console.''
        (Inr 200)]"

definition polled_run :: "string \<Rightarrow> string \<Rightarrow> string \<Rightarrow> history" where
  "polled_run build_status status message =
     [Boto3Client ''codebuild'' None, StartBuild ''mirror'' example_started,
      GetRemainingTime (Inr 840000),
      BatchGetBuilds [''mirror:1''] (Inr (example_builds build_status)),
      callback example_event (example_context 840000) status message (Inr 200)]"

text \<open>What the guarded block does when the trigger raises.\<close>

definition error_run :: history where
  "error_run =
     [Boto3Client ''codebuild'' None, StartBuild ''mirror'' (Inl (Exception ''AccessDenied''))]"

text \<open>The create event without its response URL.\<close>

definition incomplete_event :: event where
  "incomplete_event = example_event(''ResponseURL'' := None)"

section \<open>Proofs\<close>

subsection \<open>The serialised report is ASCII\<close>

lemma ascii_chars:
  "ascii CHR ''[''" "ascii CHR '']''" "ascii CHR ''{''" "ascii CHR ''}''" "ascii CHR '',''"
  "ascii CHR '' ''" "ascii CHR '':''" "ascii CHR ''-''" "ascii CHR 0x22" "ascii CHR 0x5C"
  "ascii CHR ''n''" "ascii CHR ''u''" "ascii CHR ''l''" "ascii CHR ''t''" "ascii CHR ''r''"
  "ascii CHR ''e''" "ascii CHR ''f''" "ascii CHR ''a''" "ascii CHR ''s''" "ascii CHR ''b''"
  "ascii CHR ''0''"
  by (simp_all add: ascii_def)

lemma ascii_digit_char: "d < 10 \<Longrightarrow> ascii (digit_char d)"
  by (simp add: ascii_def digit_char_def)

lemma ascii_hex_char: "d < 16 \<Longrightarrow> ascii (hex_char d)"
  by (simp add: ascii_def hex_char_def)

lemma ascii_str_nat: "list_all ascii (str_nat n)"
proof (induction n rule: str_nat.induct)
  case (1 n)
  show ?case
  proof (cases "n < 10")
    case True
    then show ?thesis by (subst str_nat.simps) (simp add: ascii_digit_char)
  next
    case False
    with 1 show ?thesis by (subst str_nat.simps) (simp add: ascii_digit_char)
  qed
qed

lemma ascii_str_int: "list_all ascii (str_int i)"
  by (simp add: str_int_def ascii_str_nat ascii_chars)

lemma of_char_less_256: "(of_char c :: nat) < 256"
  by (metis of_char_mod_256 mod_less_divisor zero_less_numeral)

lemma ascii_escape_char: "list_all ascii (escape_char c)"
proof -
  have "(of_char c :: nat) div 16 < 16"
    using of_char_less_256 [of c] by arith
  then show ?thesis
    by (simp add: escape_char_def ascii_hex_char ascii_chars) (simp add: ascii_def)
qed

lemma ascii_encode_basestring: "list_all ascii (encode_basestring_ascii s)"
proof -
  have "list_all ascii (concat (map escape_char s))"
    by (induction s) (simp_all add: ascii_escape_char)
  then show ?thesis
    by (simp add: encode_basestring_ascii_def ascii_chars)
qed

lemma ascii_join:
  "list_all ascii sep \<Longrightarrow> list_all (list_all ascii) xs \<Longrightarrow> list_all ascii (join sep xs)"
  by (induction sep xs rule: join.induct) simp_all

lemma ascii_json_dumps: "list_all ascii (json_dumps v)"
proof (induction v)
  case PNone
  show ?case by (simp add: ascii_chars)
next
  case (PBool b)
  show ?case by (simp add: ascii_chars)
next
  case (PInt i)
  show ?case by (simp add: ascii_str_int)
next
  case (PStr s)
  show ?case by (simp add: ascii_encode_basestring)
next
  case (PList vs)
  then have "list_all (list_all ascii) (map json_dumps vs)"
    by (simp add: list_all_iff)
  then have "list_all ascii (join '', '' (map json_dumps vs))"
    by (intro ascii_join) (simp_all add: ascii_chars)
  then show ?case by (simp add: ascii_chars)
next
  case (PDict kvs)
  have "list_all (list_all ascii)
          (map (\<lambda>(k, v). encode_basestring_ascii k @ '': '' @ json_dumps v) kvs)"
    unfolding list_all_iff
  proof
    fix x
    assume "x \<in> set (map (\<lambda>(k, v). encode_basestring_ascii k @ '': '' @ json_dumps v) kvs)"
    then obtain k v where kv: "(k, v) \<in> set kvs"
      and x: "x = encode_basestring_ascii k @ '': '' @ json_dumps v"
      by auto
    from kv PDict have "list_all ascii (json_dumps v)"
      by (auto simp: list_all_iff)
    with x show "\<forall>c\<in>set x. ascii c"
      using ascii_encode_basestring [of k]
      by (auto simp: list_all_iff ascii_chars)
  qed
  then have "list_all ascii
      (join '', '' (map (\<lambda>(k, v). encode_basestring_ascii k @ '': '' @ json_dumps v) kvs))"
    by (intro ascii_join) (simp_all add: ascii_chars)
  then show ?case by (simp add: ascii_chars)
qed

lemma utf8_length_ascii: "list_all ascii s \<Longrightarrow> length (utf8_encode s) = length s"
  by (induction s) (simp_all add: utf8_encode_def utf8_char_def ascii_def)

lemma utf8_length_json_dumps: "length (utf8_encode (json_dumps v)) = length (json_dumps v)"
  by (rule utf8_length_ascii) (rule ascii_json_dumps)

subsection \<open>The code stays inside the state machine\<close>

lemma str_int_900: "str_int (int max_wait_time) = ''900''"
  by code_simp

lemma send_no_raise:
  assumes "event ''ResponseURL'' = Some url" "event ''StackId'' = Some sid"
    "event ''RequestId'' = Some rid" "event ''LogicalResourceId'' = Some lid"
  shows "send w event ctx responseStatus responseData physicalResourceId noEcho reason h =
    (let body = PDict
           [(''Status'', responseStatus),
            (''Reason'', py_or reason
               (PStr (''See the details in CloudWatch Log Stream: '' @ log_stream_name ctx))),
            (''PhysicalResourceId'', py_or physicalResourceId (PStr (log_stream_name ctx))),
            (''StackId'', sid), (''RequestId'', rid), (''LogicalResourceId'', lid),
            (''NoEcho'', noEcho), (''Data'', responseData)];
         headers = [(''content-type'', ''''),
                    (''content-length'', str_int (int (length (json_dumps body))))];
         response = http_request w h ''PUT'' url headers (json_dumps body)
     in (Inr (case response of Inl e \<Rightarrow> PDict [] | Inr status \<Rightarrow> body),
         h @ [HttpRequest ''PUT'' url headers (json_dumps body) response]))"
  using assms unfolding send_def getitem_def Let_def
  by (simp split: sum.split)

lemma send_callback:
  assumes "required_fields event"
  shows "\<exists>ret response.
    send w event ctx (PStr status) (PDict [(''message'', PStr message)])
      PNone (PBool False) PNone h =
    (Inr ret, h @ [callback event ctx status message response])"
proof -
  from assms obtain url sid rid lid where f:
    "event ''ResponseURL'' = Some url" "event ''StackId'' = Some sid"
    "event ''RequestId'' = Some rid" "event ''LogicalResourceId'' = Some lid"
    by (auto simp: required_fields_def)
  show ?thesis
    unfolding send_no_raise [OF f] callback_def callback_report_def Let_def
      utf8_length_json_dumps
    by (simp add: f py_or_def)
qed

lemma poll_iteration_run:
  assumes "required_fields event"
  shows "\<exists>seg out. poll_iteration w event ctx build_id h = (out, h @ seg) \<and>
           iteration_run event ctx build_id seg out"
proof (cases "get_remaining_time_in_millis ctx h")
  case (Inl e)
  with iteration_run.check_raises [of event ctx build_id e] show ?thesis
    by (simp add: poll_iteration_def Let_def)
next
  case (Inr millis)
  note rem = Inr
  let ?h1 = "h @ [GetRemainingTime (Inr millis)]"
  show ?thesis
  proof (cases "real_of_int millis / 1000 < 60")
    case True
    obtain ret response where
      "send w event ctx (PStr ''FAILED'')
         (PDict [(''message'', PStr (''Lambda timeout approaching. Build '' @ build_id @
            '' still running. Please check CodeBuild console.''))])
         PNone (PBool False) PNone ?h1 =
       (Inr ret, ?h1 @ [callback event ctx ''FAILED''
          (''Lambda timeout approaching. Build '' @ build_id @
           '' still running. Please check CodeBuild console.'') response])"
      using send_callback [OF assms] by blast
    with rem True iteration_run.timeout_imminent [OF True, of event ctx build_id]
    show ?thesis
      by (simp add: poll_iteration_def Let_def)
  next
    case False
    note ok = False
    show ?thesis
    proof (cases "batch_get_builds w ?h1 [build_id]")
      case (Inl e)
      with rem ok iteration_run.query_raises [OF ok, of event ctx build_id e]
      show ?thesis
        by (simp add: poll_iteration_def Let_def)
    next
      case (Inr build_status)
      note bs = Inr
      let ?h2 = "?h1 @ [BatchGetBuilds [build_id] (Inr build_status)]"
      show ?thesis
      proof (cases "buildStatus_of build_status")
        case (Inl e)
        with rem ok bs iteration_run.status_unreadable [OF ok Inl, of event ctx build_id]
        show ?thesis
          by (simp add: poll_iteration_def Let_def)
      next
        case (Inr status)
        note st = Inr
        consider (s) "status = ''SUCCEEDED''"
          | (f) "status \<noteq> ''SUCCEEDED''" "status \<in> failed_statuses"
          | (p) "status \<noteq> ''SUCCEEDED''" "status \<notin> failed_statuses"
          by blast
        then show ?thesis
        proof cases
          case s
          obtain ret response where
            "send w event ctx (PStr ''SUCCESS'')
               (PDict [(''message'', PStr
                  (''CodeBuild project completed successfully. Build ID: '' @ build_id))])
               PNone (PBool False) PNone ?h2 =
             (Inr ret, ?h2 @ [callback event ctx ''SUCCESS''
                (''CodeBuild project completed successfully. Build ID: '' @ build_id) response])"
            using send_callback [OF assms] by blast
          with rem ok bs st s
            iteration_run.succeeded [OF ok st [unfolded s], of event ctx build_id]
          show ?thesis
            by (simp add: poll_iteration_def Let_def)
        next
          case f
          obtain ret response where
            "send w event ctx (PStr ''FAILED'')
               (PDict [(''message'', PStr (''CodeBuild '' @ status @ ''. Build ID: '' @ build_id @
                  ''. Check CloudWatch logs.''))])
               PNone (PBool False) PNone ?h2 =
             (Inr ret, ?h2 @ [callback event ctx ''FAILED''
                (''CodeBuild '' @ status @ ''. Build ID: '' @ build_id @
                 ''. Check CloudWatch logs.'') response])"
            using send_callback [OF assms] by blast
          moreover from f have "status \<in> set [''FAILED'', ''FAULT'', ''STOPPED'', ''TIMED_OUT'']"
            by (simp add: failed_statuses_def)
          ultimately show ?thesis
            using rem ok bs st f
              iteration_run.build_failed [OF ok st f(2), of event ctx build_id]
            by (simp add: poll_iteration_def Let_def)
        next
          case p
          then have np: "status \<notin> set [''FAILED'', ''FAULT'', ''STOPPED'', ''TIMED_OUT'']"
            by (simp add: failed_statuses_def)
          show ?thesis
          proof (cases "time_sleep w ?h2 wait_interval")
            case None
            with rem ok bs st p np iteration_run.in_progress [OF ok st p, of event ctx build_id]
            show ?thesis
              by (simp add: poll_iteration_def Let_def wait_interval_def)
          next
            case (Some e)
            with rem ok bs st p np
              iteration_run.sleep_raises [OF ok st p, of event ctx build_id e]
            show ?thesis
              by (simp add: poll_iteration_def Let_def wait_interval_def)
          qed
        qed
      qed
    qed
  qed
qed

lemma poll_loop_run:
  "required_fields event \<Longrightarrow>
   \<exists>seg r. poll_loop w event ctx build_id elapsed_time h = (r, h @ seg) \<and>
     poll_run event ctx build_id elapsed_time seg r"
proof (induction w event ctx build_id elapsed_time h rule: poll_loop.induct)
  case (1 w event ctx build_id elapsed_time h)
  note req = "1.prems"
  show ?case
  proof (cases "elapsed_time < max_wait_time")
    case False
    then have ge: "900 \<le> elapsed_time"
      by (simp add: max_wait_time_def)
    obtain ret response where
      "send w event ctx (PStr ''FAILED'')
         (PDict [(''message'', PStr (''CodeBuild did not complete within '' @
            ''900'' @ ''s. Build ID: '' @ build_id))])
         PNone (PBool False) PNone h =
       (Inr ret, h @ [callback event ctx ''FAILED''
          (''CodeBuild did not complete within '' @ ''900'' @ ''s. Build ID: '' @ build_id)
          response])"
      using send_callback [OF req] by blast
    with False poll_run.budget_exhausted [OF ge] show ?thesis
      by (subst poll_loop.simps) (simp add: str_int_900)
  next
    case True
    then have lt: "elapsed_time < 900"
      by (simp add: max_wait_time_def)
    obtain seg out where it: "poll_iteration w event ctx build_id h = (out, h @ seg)"
      and run: "iteration_run event ctx build_id seg out"
      using poll_iteration_run [OF req] by blast
    show ?thesis
    proof (cases out)
      case (Some r)
      with True it run lt show ?thesis
        by (subst poll_loop.simps) (auto intro: poll_run.leaves)
    next
      case None
      from "1.IH" [OF True it [symmetric, unfolded None] refl req]
      obtain rest r where
        rec: "poll_loop w event ctx build_id (elapsed_time + wait_interval) (h @ seg) =
                (r, (h @ seg) @ rest)"
        and rrun: "poll_run event ctx build_id (elapsed_time + wait_interval) rest r"
        by blast
      from rrun have "poll_run event ctx build_id (elapsed_time + 30) rest r"
        by (simp add: wait_interval_def)
      with lt run None have "poll_run event ctx build_id elapsed_time (seg @ rest) r"
        by (auto intro: poll_run.goes_on)
      with True it None rec show ?thesis
        by (subst poll_loop.simps) simp
    qed
  qed
qed

lemma callback_eq:
  "callback event ctx status message response =
     HttpRequest ''PUT'' (the (event ''ResponseURL''))
       [(''content-type'', ''''),
        (''content-length'',
         str_int (int (length (json_dumps (callback_report event ctx status message)))))]
       (json_dumps (callback_report event ctx status message)) response"
  by (simp add: callback_def Let_def utf8_length_json_dumps)

lemma callback_kind [simp]:
  "is_callback (callback event ctx status message response)"
  "\<not> is_status_query (callback event ctx status message response)"
  "\<not> is_build_trigger (callback event ctx status message response)"
  "\<not> is_time_check (callback event ctx status message response)"
  by (simp_all add: callback_def Let_def)

lemma callback_distinct [simp]:
  "callback event ctx status message response \<noteq> GetRemainingTime millis"
  "callback event ctx status message response \<noteq> BatchGetBuilds ids build_status"
  "callback event ctx status message response \<noteq> StartBuild projectName started"
  "GetRemainingTime millis \<noteq> callback event ctx status message response"
  "BatchGetBuilds ids build_status \<noteq> callback event ctx status message response"
  "StartBuild projectName started \<noteq> callback event ctx status message response"
  by (simp_all add: callback_def Let_def)

lemma try_block_run:
  assumes "required_fields event"
  shows "\<exists>seg r. try_block w event ctx h = (r, h @ seg) \<and> create_run event ctx seg r"
proof (cases "boto3_client w h ''codebuild''")
  case (Some e)
  with create_run.client_raises [of event ctx e] show ?thesis
    by (simp add: try_block_def Let_def)
next
  case None
  note client = None
  let ?h1 = "h @ [Boto3Client ''codebuild'' None]"
  show ?thesis
  proof (cases "environ w ''PROJECT_NAME''")
    case None
    with client create_run.project_unset [of event ctx] show ?thesis
      by (simp add: try_block_def Let_def getitem_def)
  next
    case (Some projectName)
    note pn = Some
    show ?thesis
    proof (cases "start_build w ?h1 projectName")
      case (Inl e)
      with client pn create_run.start_raises [of event ctx projectName e] show ?thesis
        by (simp add: try_block_def Let_def getitem_def)
    next
      case (Inr response)
      note sb = Inr
      show ?thesis
      proof (cases "build_id_of response")
        case (Inl e)
        with client pn sb create_run.id_unreadable [OF Inl, of event ctx projectName]
        show ?thesis
          by (simp add: try_block_def Let_def getitem_def)
      next
        case (Inr build_id)
        obtain seg r where
          "poll_loop w event ctx build_id 0
             (h @ [Boto3Client ''codebuild'' None, StartBuild projectName (Inr response)]) =
           (r, (h @ [Boto3Client ''codebuild'' None, StartBuild projectName (Inr response)]) @ seg)"
          and "poll_run event ctx build_id 0 seg r"
          using poll_loop_run [OF assms] by blast
        with client pn sb Inr create_run.polls [OF Inr, of event ctx seg r projectName]
        show ?thesis
          by (simp add: try_block_def Let_def getitem_def)
      qed
    qed
  qed
qed

lemma lambda_handler_run:
  assumes "required_fields event"
  shows "\<exists>seg r. lambda_handler w event ctx h = (Inr r, h @ seg) \<and> handler_run event ctx seg r"
proof -
  from assms obtain requestType where rt: "event ''RequestType'' = Some requestType"
    by (auto simp: required_fields_def)
  show ?thesis
  proof (cases "requestType = PStr ''Create''")
    case False
    obtain ret response where
      "send w event ctx (PStr ''SUCCESS'') (PDict [(''message'', PStr ''No action required'')])
         PNone (PBool False) PNone h =
       (Inr ret, h @ [callback event ctx ''SUCCESS'' ''No action required'' response])"
      using send_callback [OF assms] by blast
    moreover from rt False have "event ''RequestType'' \<noteq> Some (PStr ''Create'')"
      by simp
    note handler_run.no_action [of event ctx, OF this]
    ultimately show ?thesis
      using rt False by (simp add: lambda_handler_def getitem_def)
  next
    case True
    with rt have create: "event ''RequestType'' = Some (PStr ''Create'')"
      by simp
    obtain seg r where tb: "try_block w event ctx h = (r, h @ seg)"
      and run: "create_run event ctx seg r"
      using try_block_run [OF assms] by blast
    show ?thesis
    proof (cases r)
      case (Inr ret)
      with create tb run handler_run.returned [of event ctx seg ret, OF create] show ?thesis
        by (simp add: lambda_handler_def getitem_def)
    next
      case (Inl e)
      obtain ret response where
        "send w event ctx (PStr ''FAILED'') (PDict [(''message'', PStr (''Error: '' @ str_exn e))])
           PNone (PBool False) PNone (h @ seg) =
         (Inr ret, (h @ seg) @ [callback event ctx ''FAILED'' (''Error: '' @ str_exn e) response])"
        using send_callback [OF assms] by blast
      with create tb run Inl handler_run.caught [of event ctx seg e, OF create] show ?thesis
        by (simp add: lambda_handler_def getitem_def Let_def)
    qed
  qed
qed

subsection \<open>Properties of runs\<close>

lemma iteration_run_callbacks:
  assumes "iteration_run event ctx build_id seg out"
  shows "(case out of
            Some (Inr r) \<Rightarrow> \<exists>p c. seg = p @ [c] \<and> is_callback c \<and> callbacks p = []
          | _ \<Rightarrow> callbacks seg = [])"
  using assms by cases (simp_all add: callbacks_def)

lemma poll_run_callbacks:
  assumes "poll_run event ctx build_id elapsed_time seg res"
  shows "(case res of
            Inr r \<Rightarrow> \<exists>p c. seg = p @ [c] \<and> is_callback c \<and> callbacks p = []
          | Inl e \<Rightarrow> callbacks seg = [])"
  using assms
proof induction
  case (budget_exhausted elapsed_time response)
  show ?case by (simp add: callbacks_def)
next
  case (leaves elapsed_time seg r)
  from iteration_run_callbacks [OF leaves(2)] show ?case
    by (simp split: sum.splits)
next
  case (goes_on elapsed_time seg rest r)
  from iteration_run_callbacks [OF goes_on(2)] have none: "callbacks seg = []"
    by simp
  show ?case
  proof (cases r)
    case (Inl e)
    with goes_on.IH none show ?thesis
      by (simp add: callbacks_def)
  next
    case (Inr ret)
    with goes_on.IH obtain p c where "rest = p @ [c]" "is_callback c" "callbacks p = []"
      by auto
    with none have "seg @ rest = (seg @ p) @ [c] \<and> is_callback c \<and> callbacks (seg @ p) = []"
      by (simp add: callbacks_def)
    with Inr show ?thesis
      by (auto simp del: append_assoc)
  qed
qed

lemma create_run_callbacks:
  assumes "create_run event ctx seg res"
  shows "(case res of
            Inr r \<Rightarrow> \<exists>p c. seg = p @ [c] \<and> is_callback c \<and> callbacks p = []
          | Inl e \<Rightarrow> callbacks seg = [])"
  using assms
proof cases
  case (polls response build_id rest projectName)
  let ?pre = "[Boto3Client ''codebuild'' None, StartBuild projectName (Inr response)]"
  show ?thesis
  proof (cases res)
    case (Inl e)
    with polls poll_run_callbacks [OF polls(3)] show ?thesis
      by (simp add: callbacks_def)
  next
    case (Inr ret)
    with poll_run_callbacks [OF polls(3)] obtain p c where
      "rest = p @ [c]" "is_callback c" "callbacks p = []"
      by auto
    then have "seg = (?pre @ p) @ [c] \<and> is_callback c \<and> callbacks (?pre @ p) = []"
      using polls by (simp add: callbacks_def)
    with Inr show ?thesis
      by (auto simp del: append_assoc append.simps)
  qed
qed (simp_all add: callbacks_def)

lemma handler_run_callbacks:
  assumes "handler_run event ctx seg r"
  shows "\<exists>p c. seg = p @ [c] \<and> is_callback c \<and> callbacks p = []"
  using assms
proof cases
  case (no_action response)
  then show ?thesis by (simp add: callbacks_def)
next
  case returned
  from create_run_callbacks [OF returned(2)] show ?thesis
    by simp
next
  case (caught pre e response)
  from create_run_callbacks [OF caught(4)] have "callbacks pre = []"
    by simp
  with caught show ?thesis by simp
qed

lemma handler_run_callback_shape:
  assumes "handler_run event ctx seg r" and "a \<in> set seg" and "is_callback a"
  shows "\<exists>status message response. a = callback event ctx status message response"
proof -
  have it: "\<exists>status message response. a = callback event ctx status message response"
    if "iteration_run event ctx build_id s out" "a \<in> set s" for build_id s out
    using that assms(3) by cases auto
  have poll: "\<exists>status message response. a = callback event ctx status message response"
    if "poll_run event ctx build_id e s res" "a \<in> set s" for build_id e s res
    using that
  proof induction
    case (budget_exhausted elapsed_time response)
    then show ?case by auto
  next
    case (leaves elapsed_time seg r)
    with it show ?case by blast
  next
    case (goes_on elapsed_time seg rest r)
    with it show ?case by auto
  qed
  have create: "\<exists>status message response. a = callback event ctx status message response"
    if "create_run event ctx s res" "a \<in> set s" for s res
    using that assms(3) poll by cases auto
  from assms(1,2) show ?thesis
  proof cases
    case (no_action response)
    with assms(2) show ?thesis by auto
  next
    case returned
    with create assms(2) show ?thesis by blast
  next
    case (caught pre e response)
    with create assms(2) show ?thesis by auto
  qed
qed

subsection \<open>What decides a run\<close>

lemma iteration_run_none:
  assumes "iteration_run event ctx build_id seg None"
  shows "\<exists>millis build_status status.
           seg = [GetRemainingTime (Inr millis), BatchGetBuilds [build_id] (Inr build_status),
                  Sleep 30 None] \<and>
           \<not> real_of_int millis / 1000 < 60 \<and> buildStatus_of build_status = Inr status \<and>
           status \<noteq> ''SUCCEEDED'' \<and> status \<notin> failed_statuses"
  using assms by cases auto

lemma iteration_run_imminent:
  assumes "iteration_run event ctx build_id seg out"
    and "GetRemainingTime (Inr millis) \<in> set seg" and "real_of_int millis / 1000 < 60"
  shows "out = Some (Inr ''{ \"status\": 500, \"message\": \"timeout\" }'') \<and>
         (\<exists>response. seg =
            [GetRemainingTime (Inr millis),
             callback event ctx ''FAILED''
               (''Lambda timeout approaching. Build '' @ build_id @
                '' still running. Please check CodeBuild console.'') response])"
  using assms by cases auto

lemma iteration_run_succeeded:
  assumes "iteration_run event ctx build_id seg out"
    and "BatchGetBuilds ids (Inr build_status) \<in> set seg"
    and "buildStatus_of build_status = Inr ''SUCCEEDED''"
  shows "out = Some (Inr ''{ \"status\": 200, \"message\": \"success\" }'') \<and> ids = [build_id] \<and>
         (\<exists>millis response. seg =
            [GetRemainingTime (Inr millis), BatchGetBuilds ids (Inr build_status),
             callback event ctx ''SUCCESS''
               (''CodeBuild project completed successfully. Build ID: '' @ build_id) response])"
  using assms by cases (auto simp: failed_statuses_def)

lemma iteration_run_failed:
  assumes "iteration_run event ctx build_id seg out"
    and "BatchGetBuilds ids (Inr build_status) \<in> set seg"
    and "buildStatus_of build_status = Inr status" and "status \<in> failed_statuses"
  shows "out = Some (Inr ''{ \"status\": 500, \"message\": \"build_failed\" }'') \<and>
         ids = [build_id] \<and>
         (\<exists>millis response. seg =
            [GetRemainingTime (Inr millis), BatchGetBuilds ids (Inr build_status),
             callback event ctx ''FAILED''
               (''CodeBuild '' @ status @ ''. Build ID: '' @ build_id @
                ''. Check CloudWatch logs.'') response])"
  using assms by cases (auto simp: failed_statuses_def)

text \<open>
  A poll loop in which some action decides the outcome: the action is followed by the
  callback and by nothing else, and no callback comes before it.
\<close>

lemma poll_run_decided:
  assumes "poll_run event ctx build_id elapsed_time seg res"
    and "a \<in> set seg"
    and step: "\<And>s out. iteration_run event ctx build_id s out \<Longrightarrow> a \<in> set s \<Longrightarrow>
            out = Some (Inr payload) \<and> Q \<and>
            (\<exists>q response. s = q @ [a, callback event ctx status message response] \<and>
               callbacks q = [])"
    and "\<not> is_callback a"
  shows "res = Inr payload \<and> Q \<and>
         (\<exists>p response. seg = p @ [a, callback event ctx status message response] \<and>
            callbacks p = [])"
  using assms(1,2)
proof induction
  case (budget_exhausted elapsed_time response)
  with assms(4) show ?case by auto
next
  case (leaves elapsed_time seg r')
  from step [OF leaves(2) leaves(3)] show ?case by simp
next
  case (goes_on elapsed_time seg rest r')
  from step [OF goes_on(2)] have "a \<notin> set seg"
    by auto
  with goes_on have "a \<in> set rest" by simp
  with goes_on.IH obtain p response where
    "r' = Inr payload" "Q"
    "rest = p @ [a, callback event ctx status message response]" "callbacks p = []"
    by blast
  moreover from iteration_run_callbacks [OF goes_on(2)] have "callbacks seg = []"
    by simp
  ultimately have "r' = Inr payload \<and> Q \<and>
      seg @ rest = (seg @ p) @ [a, callback event ctx status message response] \<and>
      callbacks (seg @ p) = []"
    by (simp add: callbacks_def)
  then show ?case by blast
qed

lemma iteration_run_query_checked:
  assumes "iteration_run event ctx build_id seg out"
    and "seg = p @ BatchGetBuilds ids r # s"
  shows "\<exists>millis. p = [GetRemainingTime (Inr millis)] \<and> \<not> real_of_int millis / 1000 < 60"
  using assms by cases (auto simp: Cons_eq_append_conv)

lemma poll_run_query_checked:
  assumes "poll_run event ctx build_id elapsed_time seg res"
    and "seg = p @ BatchGetBuilds ids r # s"
  shows "\<exists>p' millis. p = p' @ [GetRemainingTime (Inr millis)] \<and>
           \<not> real_of_int millis / 1000 < 60"
  using assms
proof (induction arbitrary: p s)
  case (budget_exhausted elapsed_time response)
  then show ?case by (auto simp: Cons_eq_append_conv)
next
  case (leaves elapsed_time seg r')
  from iteration_run_query_checked [OF leaves(2) leaves(3)] show ?case
    by auto
next
  case (goes_on elapsed_time seg rest r')
  from goes_on.prems obtain us where
    "(seg = p @ us \<and> us @ rest = BatchGetBuilds ids r # s) \<or>
     (seg @ us = p \<and> rest = us @ BatchGetBuilds ids r # s)"
    by (auto simp: append_eq_append_conv2)
  then show ?case
  proof
    assume a: "seg = p @ us \<and> us @ rest = BatchGetBuilds ids r # s"
    show ?thesis
    proof (cases us)
      case Nil
      with a have "rest = [] @ BatchGetBuilds ids r # s" by simp
      from goes_on.IH [OF this] show ?thesis by simp
    next
      case (Cons u us')
      with a have "seg = p @ BatchGetBuilds ids r # us'" by simp
      from iteration_run_query_checked [OF goes_on(2) this] show ?thesis
        by auto
    qed
  next
    assume b: "seg @ us = p \<and> rest = us @ BatchGetBuilds ids r # s"
    then have "rest = us @ BatchGetBuilds ids r # s" by simp
    from goes_on.IH [OF this] obtain p' millis where
      "us = p' @ [GetRemainingTime (Inr millis)]" "\<not> real_of_int millis / 1000 < 60"
      by blast
    with b have "p = (seg @ p') @ [GetRemainingTime (Inr millis)] \<and>
        \<not> real_of_int millis / 1000 < 60"
      by auto
    then show ?thesis by blast
  qed
qed

lemma create_run_query_checked:
  assumes "create_run event ctx seg res"
    and "seg = p @ BatchGetBuilds ids r # s"
  shows "\<exists>p' millis. p = p' @ [GetRemainingTime (Inr millis)] \<and>
           \<not> real_of_int millis / 1000 < 60"
  using assms(1)
proof cases
  case (polls started build_id rest projectName)
  let ?pre = "[Boto3Client ''codebuild'' None, StartBuild projectName (Inr started)]"
  from polls assms(2) have "?pre @ rest = p @ BatchGetBuilds ids r # s"
    by simp
  then obtain us where "p = ?pre @ us" "rest = us @ BatchGetBuilds ids r # s"
    by (auto simp: Cons_eq_append_conv)
  with poll_run_query_checked [OF polls(3)] show ?thesis
    by (metis append.assoc)
qed (use assms(2) in \<open>auto simp: Cons_eq_append_conv append_eq_Cons_conv\<close>)

lemma handler_run_query_checked:
  assumes "handler_run event ctx seg r"
    and "seg = p @ BatchGetBuilds ids x # s"
  shows "\<exists>p' millis. p = p' @ [GetRemainingTime (Inr millis)] \<and>
           \<not> real_of_int millis / 1000 < 60"
  using assms(1)
proof cases
  case (no_action response)
  with assms(2) show ?thesis by (auto simp: Cons_eq_append_conv)
next
  case returned
  from create_run_query_checked [OF returned(2) assms(2)] show ?thesis .
next
  case (caught pre e response)
  with assms(2) have
    "pre @ [callback event ctx ''FAILED'' (''Error: '' @ str_exn e) response] =
       p @ BatchGetBuilds ids x # s"
    by simp
  then obtain s' where "pre = p @ BatchGetBuilds ids x # s'"
    by (cases s rule: rev_cases) auto
  from create_run_query_checked [OF caught(4) this] show ?thesis .
qed

lemma create_run_polls:
  assumes "create_run event ctx seg res" and "a \<in> set seg"
    and "is_time_check a \<or> is_status_query a"
  shows "\<exists>projectName started build_id rest.
           seg = Boto3Client ''codebuild'' None # StartBuild projectName (Inr started) # rest \<and>
           build_id_of started = Inr build_id \<and>
           poll_run event ctx build_id 0 rest res \<and> a \<in> set rest"
  using assms by cases auto

lemma handler_run_polls:
  assumes "handler_run event ctx seg r" and "a \<in> set seg"
    and "is_time_check a \<or> is_status_query a"
  shows "\<exists>projectName started build_id rest res.
           build_id_of started = Inr build_id \<and>
           poll_run event ctx build_id 0 rest res \<and> a \<in> set rest \<and>
           (\<forall>r'. res = Inr r' \<longrightarrow>
              r' = r \<and>
              seg = Boto3Client ''codebuild'' None # StartBuild projectName (Inr started) # rest)"
  using assms(1)
proof cases
  case (no_action response)
  with assms(2,3) show ?thesis by auto
next
  case returned
  from create_run_polls [OF returned(2) assms(2,3)] obtain projectName started build_id rest
    where "seg = Boto3Client ''codebuild'' None # StartBuild projectName (Inr started) # rest"
      "build_id_of started = Inr build_id" "poll_run event ctx build_id 0 rest (Inr r)"
      "a \<in> set rest"
    by blast
  then show ?thesis
    by (intro exI [of _ projectName] exI [of _ started] exI [of _ build_id] exI [of _ rest]
        exI [of _ "Inr r"]) simp
next
  case (caught pre e response)
  with assms(2,3) have "a \<in> set pre" by auto
  from create_run_polls [OF caught(4) this assms(3)] obtain projectName started build_id rest
    where "pre = Boto3Client ''codebuild'' None # StartBuild projectName (Inr started) # rest"
      "build_id_of started = Inr build_id" "poll_run event ctx build_id 0 rest (Inl e)"
      "a \<in> set rest"
    by blast
  then show ?thesis
    by (intro exI [of _ projectName] exI [of _ started] exI [of _ build_id] exI [of _ rest]
        exI [of _ "Inl e"]) simp
qed

lemma handler_run_decided:
  assumes "handler_run event ctx seg r" and "a \<in> set seg"
    and kind: "is_time_check a \<or> is_status_query a"
    and step: "\<And>build_id s out. iteration_run event ctx build_id s out \<Longrightarrow> a \<in> set s \<Longrightarrow>
            out = Some (Inr payload) \<and> Q build_id \<and>
            (\<exists>q response. s = q @ [a, callback event ctx status (message build_id) response] \<and>
               callbacks q = [])"
  shows "r = payload \<and>
         (\<exists>p response projectName started build_id.
            seg = p @ [a, callback event ctx status (message build_id) response] \<and>
            callbacks p = [] \<and> Q build_id \<and>
            StartBuild projectName (Inr started) \<in> set p \<and> build_id_of started = Inr build_id)"
proof -
  from kind have nc: "\<not> is_callback a"
    by (cases a) auto
  from handler_run_polls [OF assms(1,2) kind] obtain projectName started build_id rest res
    where id: "build_id_of started = Inr build_id"
      and run: "poll_run event ctx build_id 0 rest res" and mem: "a \<in> set rest"
      and ret: "\<forall>r'. res = Inr r' \<longrightarrow> r' = r \<and>
        seg = Boto3Client ''codebuild'' None # StartBuild projectName (Inr started) # rest"
    by blast
  from poll_run_decided [OF run mem step nc] obtain p response where
    res: "res = Inr payload" and q: "Q build_id"
    and rest: "rest = p @ [a, callback event ctx status (message build_id) response]"
    and none: "callbacks p = []"
    by blast
  let ?p = "Boto3Client ''codebuild'' None # StartBuild projectName (Inr started) # p"
  from ret res rest have "r = payload"
    and "seg = ?p @ [a, callback event ctx status (message build_id) response]"
    by simp_all
  moreover from none have "callbacks ?p = []"
    by (simp add: callbacks_def)
  moreover have "StartBuild projectName (Inr started) \<in> set ?p"
    by simp
  ultimately show ?thesis
    using id q by blast
qed

lemma handler_run_first_check:
  assumes "handler_run event ctx seg r"
    and "time_checks seg = GetRemainingTime (Inr millis) # cs"
    and "real_of_int millis / 1000 < 60"
  shows "status_queries seg = []"
proof -
  have it: "status_queries s = []"
    if "iteration_run event ctx build_id s out"
      and "time_checks s = GetRemainingTime (Inr millis) # cs'"
    for build_id s out cs'
    using that assms(3) by cases (auto simp: time_checks_def status_queries_def)
  have poll: "status_queries s = []"
    if "poll_run event ctx build_id e s res"
      and "time_checks s = GetRemainingTime (Inr millis) # cs'"
    for build_id e s res cs'
    using that
  proof cases
    case (budget_exhausted response)
    with that(2) show ?thesis by (simp add: time_checks_def)
  next
    case leaves
    with it that(2) show ?thesis by blast
  next
    case (goes_on s0 rest)
    from iteration_run_none [OF goes_on(3)] goes_on(1) that(2) assms(3) show ?thesis
      by (auto simp: time_checks_def)
  qed
  have create: "status_queries s = []"
    if "create_run event ctx s res"
      and "time_checks s = GetRemainingTime (Inr millis) # cs"
    for s res
    using that
  proof cases
    case (polls started build_id rest projectName)
    with that(2) have "time_checks rest = GetRemainingTime (Inr millis) # cs"
      by (simp add: time_checks_def)
    from poll [OF polls(3) this] polls(1) show ?thesis
      by (simp add: status_queries_def)
  qed (simp_all add: time_checks_def)
  from assms(1) show ?thesis
  proof cases
    case (no_action response)
    then show ?thesis by (simp add: status_queries_def)
  next
    case returned
    from create [OF returned(2) assms(2)] show ?thesis .
  next
    case (caught pre e response)
    with assms(2) have "time_checks pre = GetRemainingTime (Inr millis) # cs"
      by (simp add: time_checks_def)
    from create [OF caught(4) this] caught(1) show ?thesis
      by (simp add: status_queries_def)
  qed
qed

subsection \<open>The example runs\<close>

lemma required_example [simp]: "required_fields example_event" "required_fields update_event"
  by (simp_all add: required_fields_def example_event_def update_event_def)

lemmas example_defs =
  example_event_def example_context_def example_started_def example_builds_def example_world_def

lemmas handler_defs =
  lambda_handler_def try_block_def poll_iteration_def send_def getitem_def getitem0_def
  build_id_of_def buildStatus_of_def max_wait_time_def wait_interval_def py_or_def Let_def
  callback_eq callback_report_def

lemma example_timeout_run:
  "lambda_handler (example_world example_started ''IN_PROGRESS'' (Inr 200)) example_event
     (example_context 50000) [] =
   (Inr ''{ \"status\": 500, \"message\": \"timeout\" }'', [] @ timeout_run)"
  by (simp add: timeout_run_def example_defs handler_defs poll_loop.simps [of _ _ _ _ 0])

lemma example_succeeded_run:
  "lambda_handler (example_world example_started ''SUCCEEDED'' (Inr 200)) example_event
     (example_context 840000) [] =
   (Inr ''{ \"status\": 200, \"message\": \"success\" }'',
    [] @ polled_run ''SUCCEEDED'' ''SUCCESS''
           ''CodeBuild project completed successfully. Build ID: mirror:1'')"
  by (simp add: polled_run_def example_defs handler_defs poll_loop.simps [of _ _ _ _ 0])

lemma example_failed_run:
  "lambda_handler (example_world example_started ''FAILED'' (Inr 200)) example_event
     (example_context 840000) [] =
   (Inr ''{ \"status\": 500, \"message\": \"build_failed\" }'',
    [] @ polled_run ''FAILED'' ''FAILED''
           ''CodeBuild FAILED. Build ID: mirror:1. Check CloudWatch logs.'')"
  by (simp add: polled_run_def example_defs handler_defs poll_loop.simps [of _ _ _ _ 0])

lemma example_error_run:
  "try_block (example_world (Inl (Exception ''AccessDenied'')) ''SUCCEEDED'' (Inr 200))
     example_event (example_context 840000) [] =
   (Inl (Exception ''AccessDenied''), [] @ error_run)"
  by (simp add: error_run_def example_defs try_block_def getitem_def Let_def)

lemma example_fields:
  "example_event ''ResponseURL'' = Some (PStr ''https://cfn.example/callback'')"
  "example_event ''StackId'' = Some (PStr ''stack-1'')"
  "example_event ''RequestId'' = Some (PStr ''request-1'')"
  "example_event ''LogicalResourceId'' = Some (PStr ''Mirror'')"
  by (simp_all add: example_event_def)

subsection \<open>The answer of the HTTP pool does not reach the caller\<close>

lemma send_http_irrelevant:
  assumes "required_fields event"
  shows "\<exists>ret ret' a a'.
    send w event ctx status data physicalResourceId noEcho reason h = (Inr ret, h @ [a]) \<and>
    send (w\<lparr>http_request := f\<rparr>) event ctx status data physicalResourceId noEcho reason h =
      (Inr ret', h @ [a'])"
proof -
  from assms obtain url sid rid lid where f:
    "event ''ResponseURL'' = Some url" "event ''StackId'' = Some sid"
    "event ''RequestId'' = Some rid" "event ''LogicalResourceId'' = Some lid"
    by (auto simp: required_fields_def)
  show ?thesis
    unfolding send_no_raise [OF f] Let_def by blast
qed

lemma poll_iteration_http_irrelevant:
  assumes "required_fields event"
  shows "fst (poll_iteration (w\<lparr>http_request := f\<rparr>) event ctx build_id h) =
           fst (poll_iteration w event ctx build_id h) \<and>
         (fst (poll_iteration w event ctx build_id h) = None \<longrightarrow>
            poll_iteration (w\<lparr>http_request := f\<rparr>) event ctx build_id h =
              poll_iteration w event ctx build_id h)"
proof (cases "get_remaining_time_in_millis ctx h")
  case (Inl e)
  then show ?thesis
    by (simp add: poll_iteration_def Let_def)
next
  case (Inr millis)
  note rem = Inr
  let ?w' = "w\<lparr>http_request := f\<rparr>"
  let ?h1 = "h @ [GetRemainingTime (Inr millis)]"
  show ?thesis
  proof (cases "real_of_int millis / 1000 < 60")
    case True
    from send_http_irrelevant [OF assms] obtain ret ret' a a' where
      "send w event ctx (PStr ''FAILED'')
         (PDict [(''message'', PStr (''Lambda timeout approaching. Build '' @ build_id @
            '' still running. Please check CodeBuild console.''))])
         PNone (PBool False) PNone ?h1 = (Inr ret, ?h1 @ [a])"
      "send ?w' event ctx (PStr ''FAILED'')
         (PDict [(''message'', PStr (''Lambda timeout approaching. Build '' @ build_id @
            '' still running. Please check CodeBuild console.''))])
         PNone (PBool False) PNone ?h1 = (Inr ret', ?h1 @ [a'])"
      by blast
    with rem True show ?thesis
      by (simp add: poll_iteration_def Let_def)
  next
    case False
    note ok = False
    show ?thesis
    proof (cases "batch_get_builds w ?h1 [build_id]")
      case (Inl e)
      with rem ok show ?thesis
        by (simp add: poll_iteration_def Let_def)
    next
      case (Inr build_status)
      note bs = Inr
      let ?h2 = "?h1 @ [BatchGetBuilds [build_id] (Inr build_status)]"
      show ?thesis
      proof (cases "buildStatus_of build_status")
        case (Inl e)
        with rem ok bs show ?thesis
          by (simp add: poll_iteration_def Let_def)
      next
        case (Inr status)
        note st = Inr
        consider (s) "status = ''SUCCEEDED''"
          | (f) "status \<noteq> ''SUCCEEDED''"
              "status \<in> set [''FAILED'', ''FAULT'', ''STOPPED'', ''TIMED_OUT'']"
          | (p) "status \<noteq> ''SUCCEEDED''"
              "status \<notin> set [''FAILED'', ''FAULT'', ''STOPPED'', ''TIMED_OUT'']"
          by blast
        then show ?thesis
        proof cases
          case s
          from send_http_irrelevant [OF assms] obtain ret ret' a a' where
            "send w event ctx (PStr ''SUCCESS'')
               (PDict [(''message'', PStr
                  (''CodeBuild project completed successfully. Build ID: '' @ build_id))])
               PNone (PBool False) PNone ?h2 = (Inr ret, ?h2 @ [a])"
            "send ?w' event ctx (PStr ''SUCCESS'')
               (PDict [(''message'', PStr
                  (''CodeBuild project completed successfully. Build ID: '' @ build_id))])
               PNone (PBool False) PNone ?h2 = (Inr ret', ?h2 @ [a'])"
            by blast
          with rem ok bs st s show ?thesis
            by (simp add: poll_iteration_def Let_def)
        next
          case f
          from send_http_irrelevant [OF assms] obtain ret ret' a a' where
            "send w event ctx (PStr ''FAILED'')
               (PDict [(''message'', PStr (''CodeBuild '' @ status @ ''. Build ID: '' @ build_id @
                  ''. Check CloudWatch logs.''))])
               PNone (PBool False) PNone ?h2 = (Inr ret, ?h2 @ [a])"
            "send ?w' event ctx (PStr ''FAILED'')
               (PDict [(''message'', PStr (''CodeBuild '' @ status @ ''. Build ID: '' @ build_id @
                  ''. Check CloudWatch logs.''))])
               PNone (PBool False) PNone ?h2 = (Inr ret', ?h2 @ [a'])"
            by blast
          with rem ok bs st f show ?thesis
            by (simp add: poll_iteration_def Let_def)
        next
          case p
          with rem ok bs st show ?thesis
            by (simp add: poll_iteration_def Let_def split: option.split)
        qed
      qed
    qed
  qed
qed

lemma poll_loop_http_irrelevant:
  "required_fields event \<Longrightarrow>
   fst (poll_loop (w\<lparr>http_request := f\<rparr>) event ctx build_id elapsed_time h) =
     fst (poll_loop w event ctx build_id elapsed_time h)"
proof (induction w event ctx build_id elapsed_time h rule: poll_loop.induct)
  case (1 w event ctx build_id elapsed_time h)
  note req = "1.prems"
  let ?w' = "w\<lparr>http_request := f\<rparr>"
  show ?case
  proof (cases "elapsed_time < max_wait_time")
    case False
    from send_http_irrelevant [OF req] obtain ret ret' a a' where
      "send w event ctx (PStr ''FAILED'')
         (PDict [(''message'', PStr (''CodeBuild did not complete within '' @
            str_int (int max_wait_time) @ ''s. Build ID: '' @ build_id))])
         PNone (PBool False) PNone h = (Inr ret, h @ [a])"
      "send ?w' event ctx (PStr ''FAILED'')
         (PDict [(''message'', PStr (''CodeBuild did not complete within '' @
            str_int (int max_wait_time) @ ''s. Build ID: '' @ build_id))])
         PNone (PBool False) PNone h = (Inr ret', h @ [a'])"
      by blast
    with False show ?thesis
      by (simp add: poll_loop.simps [of w] poll_loop.simps [of ?w'])
  next
    case True
    obtain out h' where it: "poll_iteration w event ctx build_id h = (out, h')"
      by (cases "poll_iteration w event ctx build_id h")
    obtain out' h'' where it': "poll_iteration ?w' event ctx build_id h = (out', h'')"
      by (cases "poll_iteration ?w' event ctx build_id h")
    from poll_iteration_http_irrelevant [OF req, where w = w and f = f and ctx = ctx and
        build_id = build_id and h = h] it it'
    have same: "out' = out" and none: "out = None \<longrightarrow> h'' = h'"
      by simp_all
    show ?thesis
    proof (cases out)
      case (Some r)
      with True it it' same show ?thesis
        by (simp add: poll_loop.simps [of w] poll_loop.simps [of ?w'])
    next
      case None
      with none have h: "h'' = h'" by simp
      from "1.IH" [OF True it [symmetric, unfolded None] refl req]
      have "fst (poll_loop ?w' event ctx build_id (elapsed_time + wait_interval) h') =
            fst (poll_loop w event ctx build_id (elapsed_time + wait_interval) h')" .
      with True it it' same None h show ?thesis
        by (simp add: poll_loop.simps [of w _ _ _ elapsed_time]
            poll_loop.simps [of ?w' _ _ _ elapsed_time])
    qed
  qed
qed

lemma try_block_http_irrelevant:
  assumes "required_fields event"
  shows "fst (try_block (w\<lparr>http_request := f\<rparr>) event ctx h) = fst (try_block w event ctx h)"
  using poll_loop_http_irrelevant [OF assms]
  by (simp add: try_block_def Let_def split: sum.split option.split)

lemma lambda_handler_http_irrelevant:
  assumes "required_fields event"
  shows "fst (lambda_handler (w\<lparr>http_request := f\<rparr>) event ctx h) =
           fst (lambda_handler w event ctx h)"
proof -
  let ?w' = "w\<lparr>http_request := f\<rparr>"
  from assms obtain requestType where rt: "event ''RequestType'' = Some requestType"
    by (auto simp: required_fields_def)
  show ?thesis
  proof (cases "requestType = PStr ''Create''")
    case False
    from send_http_irrelevant [OF assms] obtain ret ret' a a' where
      "send w event ctx (PStr ''SUCCESS'') (PDict [(''message'', PStr ''No action required'')])
         PNone (PBool False) PNone h = (Inr ret, h @ [a])"
      "send ?w' event ctx (PStr ''SUCCESS'') (PDict [(''message'', PStr ''No action required'')])
         PNone (PBool False) PNone h = (Inr ret', h @ [a'])"
      by blast
    with rt False show ?thesis
      by (simp add: lambda_handler_def getitem_def)
  next
    case True
    obtain r h1 where tb: "try_block w event ctx h = (r, h1)"
      by (cases "try_block w event ctx h")
    obtain r' h2 where tb': "try_block ?w' event ctx h = (r', h2)"
      by (cases "try_block ?w' event ctx h")
    from try_block_http_irrelevant [OF assms, where w = w and f = f and ctx = ctx and h = h] tb tb' have same: "r' = r"
      by simp
    show ?thesis
    proof (cases r)
      case (Inr ret)
      with rt True tb tb' same show ?thesis
        by (simp add: lambda_handler_def getitem_def)
    next
      case (Inl e)
      from send_http_irrelevant [OF assms] obtain ret a where
        "send w event ctx (PStr ''FAILED'') (PDict [(''message'', PStr (''Error: '' @ str_exn e))])
           PNone (PBool False) PNone h1 = (Inr ret, h1 @ [a])"
        by blast
      moreover from send_http_irrelevant [OF assms] obtain ret' a' where
        "send ?w' event ctx (PStr ''FAILED'') (PDict [(''message'', PStr (''Error: '' @ str_exn e))])
           PNone (PBool False) PNone h2 = (Inr ret', h2 @ [a'])"
        by blast
      ultimately show ?thesis
        using rt True tb tb' same Inl
        by (simp add: lambda_handler_def getitem_def Let_def)
    qed
  qed
qed

section \<open>The claims\<close>

text \<open>
  In every theorem below \<open>w\<close> is any world, \<open>ctx\<close> any execution context and \<open>h\<close> the
  history before the call; what the call did is the part of the history after \<open>h\<close>.
\<close>

text \<open>
  C1. On every event with the required fields the handler returns a payload, and it sends
  exactly one callback on the way: the callback is the last thing it does before it returns,
  and nothing before it is a callback. This holds on every exit path (no action, build
  succeeded, build failed, timeout imminent, budget exhausted, exception caught), since it
  holds for every world.
\<close>

theorem lambda_handler_one_callback:
  assumes "required_fields event"
  shows "\<exists>r p c. lambda_handler w event ctx h = (Inr r, h @ p @ [c]) \<and>
           is_callback c \<and> callbacks p = [] \<and> length (callbacks (p @ [c])) = 1"
proof -
  obtain seg r where run: "lambda_handler w event ctx h = (Inr r, h @ seg)"
    and hr: "handler_run event ctx seg r"
    using lambda_handler_run [OF assms] by blast
  from handler_run_callbacks [OF hr] obtain p c where
    "seg = p @ [c]" "is_callback c" "callbacks p = []"
    by blast
  with run show ?thesis
    by (auto simp: callbacks_def)
qed

theorem lambda_handler_one_callback_witness:
  "required_fields example_event \<and>
   (\<exists>r p c. lambda_handler (example_world example_started ''SUCCEEDED'' (Inr 200))
              example_event (example_context 840000) [] = (Inr r, [] @ p @ [c]) \<and>
      is_callback c \<and> callbacks p = [] \<and> length (callbacks (p @ [c])) = 1)"
  using lambda_handler_one_callback [of example_event
      "example_world example_started ''SUCCEEDED'' (Inr 200)" "example_context 840000" "[]"]
  by simp

text \<open>
  C2. On an event with the required fields whose request type is not \<^verbatim>\<open>Create\<close> the handler
  does one thing: it sends the callback with status \<^verbatim>\<open>SUCCESS\<close> and the data
  \<^verbatim>\<open>{"message": "No action required"}\<close>. It triggers no build, queries no build status,
  and returns the success payload.
\<close>

theorem non_create_no_action:
  assumes "required_fields event" and "event ''RequestType'' \<noteq> Some (PStr ''Create'')"
  shows "\<exists>seg response.
           lambda_handler w event ctx h =
             (Inr ''{ \"status\": 200, \"message\": \"success\" }'', h @ seg) \<and>
           seg = [callback event ctx ''SUCCESS'' ''No action required'' response] \<and>
           length (callbacks seg) = 1 \<and> build_triggers seg = [] \<and> status_queries seg = []"
proof -
  obtain seg r where run: "lambda_handler w event ctx h = (Inr r, h @ seg)"
    and hr: "handler_run event ctx seg r"
    using lambda_handler_run [OF assms(1)] by blast
  from hr assms(2) obtain response where
    "seg = [callback event ctx ''SUCCESS'' ''No action required'' response]"
    "r = ''{ \"status\": 200, \"message\": \"success\" }''"
    by cases auto
  with run show ?thesis
    by (auto simp: callbacks_def build_triggers_def status_queries_def)
qed

theorem non_create_no_action_witness:
  "required_fields update_event \<and> update_event ''RequestType'' = Some (PStr ''Update'') \<and>
   (\<exists>seg response.
      lambda_handler (example_world example_started ''SUCCEEDED'' (Inr 200))
        update_event (example_context 840000) [] =
        (Inr ''{ \"status\": 200, \"message\": \"success\" }'', [] @ seg) \<and>
      seg = [callback update_event (example_context 840000) ''SUCCESS'' ''No action required''
               response] \<and>
      length (callbacks seg) = 1 \<and> build_triggers seg = [] \<and> status_queries seg = [])"
proof -
  have ne: "update_event ''RequestType'' \<noteq> Some (PStr ''Create'')"
    by (simp add: update_event_def)
  have "update_event ''RequestType'' = Some (PStr ''Update'')"
    by (simp add: update_event_def)
  with non_create_no_action [OF required_example(2) ne,
      of "example_world example_started ''SUCCEEDED'' (Inr 200)" "example_context 840000" "[]"]
  show ?thesis
    by simp
qed

text \<open>
  C3. In every invocation on an event with the required fields: (1) every build-status query
  comes right after a remaining-time check that answered 60 seconds or more, so the check is
  made first in every iteration of the poll loop; (2) when a check answers less than 60
  seconds, the handler sends one callback, with status \<^verbatim>\<open>FAILED\<close> and a message that
  announces the timeout and names the build that was started, it does so right after that
  check (no status query in that iteration or later, and no callback before), and it returns
  the timeout payload; (3) when the first check of the invocation answers less than 60
  seconds, the invocation makes no status query at all.
\<close>

theorem timeout_imminent_reported:
  assumes "required_fields event" and "lambda_handler w event ctx h = (res, h @ seg)"
  shows "(\<forall>p ids x s. seg = p @ BatchGetBuilds ids x # s \<longrightarrow>
            (\<exists>p' millis. p = p' @ [GetRemainingTime (Inr millis)] \<and>
               \<not> real_of_int millis / 1000 < 60)) \<and>
         (\<forall>millis. GetRemainingTime (Inr millis) \<in> set seg \<and> real_of_int millis / 1000 < 60 \<longrightarrow>
            res = Inr ''{ \"status\": 500, \"message\": \"timeout\" }'' \<and>
            length (callbacks seg) = 1 \<and>
            (\<exists>p response projectName started build_id.
               seg = p @ [GetRemainingTime (Inr millis),
                          callback event ctx ''FAILED''
                            (''Lambda timeout approaching. Build '' @ build_id @
                             '' still running. Please check CodeBuild console.'') response] \<and>
               callbacks p = [] \<and>
               StartBuild projectName (Inr started) \<in> set p \<and>
               build_id_of started = Inr build_id)) \<and>
         (\<forall>millis cs. time_checks seg = GetRemainingTime (Inr millis) # cs \<and>
            real_of_int millis / 1000 < 60 \<longrightarrow> status_queries seg = [])"
proof -
  obtain seg' r where "lambda_handler w event ctx h = (Inr r, h @ seg')"
    and "handler_run event ctx seg' r"
    using lambda_handler_run [OF assms(1)] by blast
  with assms(2) have res: "res = Inr r" and hr: "handler_run event ctx seg r"
    by simp_all
  have first: "\<forall>p ids x s. seg = p @ BatchGetBuilds ids x # s \<longrightarrow>
      (\<exists>p' millis. p = p' @ [GetRemainingTime (Inr millis)] \<and>
         \<not> real_of_int millis / 1000 < 60)"
    using handler_run_query_checked [OF hr] by blast
  have second: "res = Inr ''{ \"status\": 500, \"message\": \"timeout\" }'' \<and>
      length (callbacks seg) = 1 \<and>
      (\<exists>p response projectName started build_id.
         seg = p @ [GetRemainingTime (Inr millis),
                    callback event ctx ''FAILED''
                      (''Lambda timeout approaching. Build '' @ build_id @
                       '' still running. Please check CodeBuild console.'') response] \<and>
         callbacks p = [] \<and>
         StartBuild projectName (Inr started) \<in> set p \<and>
         build_id_of started = Inr build_id)"
    if mem: "GetRemainingTime (Inr millis) \<in> set seg" and low: "real_of_int millis / 1000 < 60"
    for millis
  proof -
    have "r = ''{ \"status\": 500, \"message\": \"timeout\" }'' \<and>
      (\<exists>p response projectName started build_id.
         seg = p @ [GetRemainingTime (Inr millis),
                    callback event ctx ''FAILED''
                      (''Lambda timeout approaching. Build '' @ build_id @
                       '' still running. Please check CodeBuild console.'') response] \<and>
         callbacks p = [] \<and> True \<and>
         StartBuild projectName (Inr started) \<in> set p \<and>
         build_id_of started = Inr build_id)"
    proof (rule handler_run_decided [OF hr mem, where Q = "\<lambda>b. True"])
      show "is_time_check (GetRemainingTime (Inr millis)) \<or>
            is_status_query (GetRemainingTime (Inr millis))"
        by simp
    next
      fix build_id s out
      assume "iteration_run event ctx build_id s out" "GetRemainingTime (Inr millis) \<in> set s"
      from iteration_run_imminent [OF this low]
      show "out = Some (Inr ''{ \"status\": 500, \"message\": \"timeout\" }'') \<and> True \<and>
        (\<exists>q response. s = q @ [GetRemainingTime (Inr millis),
            callback event ctx ''FAILED''
              (''Lambda timeout approaching. Build '' @ build_id @
               '' still running. Please check CodeBuild console.'') response] \<and>
           callbacks q = [])"
        by (auto simp: callbacks_def)
    qed
    with res show ?thesis
      by (auto simp: callbacks_def)
  qed
  have third: "status_queries seg = []"
    if "time_checks seg = GetRemainingTime (Inr millis) # cs" "real_of_int millis / 1000 < 60"
    for millis cs
    using handler_run_first_check [OF hr that] .
  from first second third show ?thesis
    by blast
qed

theorem timeout_imminent_reported_witness:
  "required_fields example_event \<and>
   lambda_handler (example_world example_started ''IN_PROGRESS'' (Inr 200)) example_event
     (example_context 50000) [] =
     (Inr ''{ \"status\": 500, \"message\": \"timeout\" }'', [] @ timeout_run) \<and>
   GetRemainingTime (Inr 50000) \<in> set timeout_run \<and> real_of_int 50000 / 1000 < (60 :: real) \<and>
   time_checks timeout_run = [GetRemainingTime (Inr 50000)] \<and>
   length (callbacks timeout_run) = 1 \<and> status_queries timeout_run = []"
proof -
  have mem: "GetRemainingTime (Inr 50000) \<in> set timeout_run"
    by (simp add: timeout_run_def)
  have low: "real_of_int 50000 / 1000 < (60 :: real)"
    by simp
  have checks: "time_checks timeout_run = [GetRemainingTime (Inr 50000)]"
    by (simp add: timeout_run_def time_checks_def)
  note claim = timeout_imminent_reported [OF required_example(1) example_timeout_run]
  from claim mem low have "length (callbacks timeout_run) = 1"
    by blast
  moreover from claim checks low have "status_queries timeout_run = []"
    by blast
  ultimately show ?thesis
    using mem low checks example_timeout_run by simp
qed

text \<open>
  C4. When a build-status query of an invocation (on an event with the required fields) is
  answered with the status \<^verbatim>\<open>SUCCEEDED\<close>, the handler sends exactly one callback, with
  status \<^verbatim>\<open>SUCCESS\<close> and a message that ends with the identifier of the build that was
  started and queried, right after that query, and returns the success payload. A query is
  only made after a remaining-time check of 60 seconds or more and within the budget of the
  loop, which is the condition of the claim.
\<close>

theorem build_succeeded_reported:
  assumes "required_fields event" and "lambda_handler w event ctx h = (res, h @ seg)"
    and "BatchGetBuilds ids (Inr build_status) \<in> set seg"
    and "buildStatus_of build_status = Inr ''SUCCEEDED''"
  shows "res = Inr ''{ \"status\": 200, \"message\": \"success\" }'' \<and>
         length (callbacks seg) = 1 \<and>
         (\<exists>p response projectName started build_id.
            seg = p @ [BatchGetBuilds ids (Inr build_status),
                       callback event ctx ''SUCCESS''
                         (''CodeBuild project completed successfully. Build ID: '' @ build_id)
                         response] \<and>
            callbacks p = [] \<and> ids = [build_id] \<and>
            StartBuild projectName (Inr started) \<in> set p \<and>
            build_id_of started = Inr build_id)"
proof -
  obtain seg' r where "lambda_handler w event ctx h = (Inr r, h @ seg')"
    and "handler_run event ctx seg' r"
    using lambda_handler_run [OF assms(1)] by blast
  with assms(2) have res: "res = Inr r" and hr: "handler_run event ctx seg r"
    by simp_all
  have "r = ''{ \"status\": 200, \"message\": \"success\" }'' \<and>
    (\<exists>p response projectName started build_id.
       seg = p @ [BatchGetBuilds ids (Inr build_status),
                  callback event ctx ''SUCCESS''
                    (''CodeBuild project completed successfully. Build ID: '' @ build_id)
                    response] \<and>
       callbacks p = [] \<and> ids = [build_id] \<and>
       StartBuild projectName (Inr started) \<in> set p \<and>
       build_id_of started = Inr build_id)"
  proof (rule handler_run_decided [OF hr assms(3), where Q = "\<lambda>b. ids = [b]"])
    show "is_time_check (BatchGetBuilds ids (Inr build_status)) \<or>
          is_status_query (BatchGetBuilds ids (Inr build_status))"
      by simp
  next
    fix build_id s out
    assume "iteration_run event ctx build_id s out"
      "BatchGetBuilds ids (Inr build_status) \<in> set s"
    from iteration_run_succeeded [OF this assms(4)]
    show "out = Some (Inr ''{ \"status\": 200, \"message\": \"success\" }'') \<and> ids = [build_id] \<and>
      (\<exists>q response. s = q @ [BatchGetBuilds ids (Inr build_status),
          callback event ctx ''SUCCESS''
            (''CodeBuild project completed successfully. Build ID: '' @ build_id) response] \<and>
         callbacks q = [])"
      by (auto simp: callbacks_def)
  qed
  with res show ?thesis
    by (auto simp: callbacks_def)
qed

theorem build_succeeded_reported_witness:
  "required_fields example_event \<and>
   lambda_handler (example_world example_started ''SUCCEEDED'' (Inr 200)) example_event
     (example_context 840000) [] =
     (Inr ''{ \"status\": 200, \"message\": \"success\" }'',
      [] @ polled_run ''SUCCEEDED'' ''SUCCESS''
             ''CodeBuild project completed successfully. Build ID: mirror:1'') \<and>
   BatchGetBuilds [''mirror:1''] (Inr (example_builds ''SUCCEEDED'')) \<in>
     set (polled_run ''SUCCEEDED'' ''SUCCESS''
            ''CodeBuild project completed successfully. Build ID: mirror:1'') \<and>
   buildStatus_of (example_builds ''SUCCEEDED'') = Inr ''SUCCEEDED'' \<and>
   length (callbacks (polled_run ''SUCCEEDED'' ''SUCCESS''
     ''CodeBuild project completed successfully. Build ID: mirror:1'')) = 1"
proof -
  have mem: "BatchGetBuilds [''mirror:1''] (Inr (example_builds ''SUCCEEDED'')) \<in>
      set (polled_run ''SUCCEEDED'' ''SUCCESS''
             ''CodeBuild project completed successfully. Build ID: mirror:1'')"
    by (simp add: polled_run_def)
  have st: "buildStatus_of (example_builds ''SUCCEEDED'') = Inr ''SUCCEEDED''"
    by (simp add: buildStatus_of_def example_builds_def getitem_def getitem0_def)
  from build_succeeded_reported [OF required_example(1) example_succeeded_run mem st]
  show ?thesis
    using mem st example_succeeded_run by simp
qed

text \<open>
  C5. When a build-status query of an invocation (on an event with the required fields) is
  answered with one of the statuses \<^verbatim>\<open>FAILED\<close>, \<^verbatim>\<open>FAULT\<close>, \<^verbatim>\<open>STOPPED\<close> and
  \<^verbatim>\<open>TIMED_OUT\<close>, the handler sends exactly one callback, with status \<^verbatim>\<open>FAILED\<close> and a
  message that holds that status and the identifier of the build, right after that query (so
  no status query follows), and returns the payload \<^verbatim>\<open>build_failed\<close>.
\<close>

theorem build_failed_reported:
  assumes "required_fields event" and "lambda_handler w event ctx h = (res, h @ seg)"
    and "BatchGetBuilds ids (Inr build_status) \<in> set seg"
    and "buildStatus_of build_status = Inr status"
    and "status \<in> {''FAILED'', ''FAULT'', ''STOPPED'', ''TIMED_OUT''}"
  shows "res = Inr ''{ \"status\": 500, \"message\": \"build_failed\" }'' \<and>
         length (callbacks seg) = 1 \<and>
         (\<exists>p response projectName started build_id.
            seg = p @ [BatchGetBuilds ids (Inr build_status),
                       callback event ctx ''FAILED''
                         (''CodeBuild '' @ status @ ''. Build ID: '' @ build_id @
                          ''. Check CloudWatch logs.'') response] \<and>
            callbacks p = [] \<and> ids = [build_id] \<and>
            StartBuild projectName (Inr started) \<in> set p \<and>
            build_id_of started = Inr build_id)"
proof -
  obtain seg' r where "lambda_handler w event ctx h = (Inr r, h @ seg')"
    and "handler_run event ctx seg' r"
    using lambda_handler_run [OF assms(1)] by blast
  with assms(2) have res: "res = Inr r" and hr: "handler_run event ctx seg r"
    by simp_all
  from assms(5) have failed: "status \<in> failed_statuses"
    by (simp add: failed_statuses_def)
  have "r = ''{ \"status\": 500, \"message\": \"build_failed\" }'' \<and>
    (\<exists>p response projectName started build_id.
       seg = p @ [BatchGetBuilds ids (Inr build_status),
                  callback event ctx ''FAILED''
                    (''CodeBuild '' @ status @ ''. Build ID: '' @ build_id @
                     ''. Check CloudWatch logs.'') response] \<and>
       callbacks p = [] \<and> ids = [build_id] \<and>
       StartBuild projectName (Inr started) \<in> set p \<and>
       build_id_of started = Inr build_id)"
  proof (rule handler_run_decided [OF hr assms(3), where Q = "\<lambda>b. ids = [b]"])
    show "is_time_check (BatchGetBuilds ids (Inr build_status)) \<or>
          is_status_query (BatchGetBuilds ids (Inr build_status))"
      by simp
  next
    fix build_id s out
    assume "iteration_run event ctx build_id s out"
      "BatchGetBuilds ids (Inr build_status) \<in> set s"
    from iteration_run_failed [OF this assms(4) failed]
    show "out = Some (Inr ''{ \"status\": 500, \"message\": \"build_failed\" }'') \<and>
      ids = [build_id] \<and>
      (\<exists>q response. s = q @ [BatchGetBuilds ids (Inr build_status),
          callback event ctx ''FAILED''
            (''CodeBuild '' @ status @ ''. Build ID: '' @ build_id @
             ''. Check CloudWatch logs.'') response] \<and>
         callbacks q = [])"
      by (auto simp: callbacks_def)
  qed
  with res show ?thesis
    by (auto simp: callbacks_def)
qed

theorem build_failed_reported_witness:
  "required_fields example_event \<and>
   lambda_handler (example_world example_started ''FAILED'' (Inr 200)) example_event
     (example_context 840000) [] =
     (Inr ''{ \"status\": 500, \"message\": \"build_failed\" }'',
      [] @ polled_run ''FAILED'' ''FAILED''
             ''CodeBuild FAILED. Build ID: mirror:1. Check CloudWatch logs.'') \<and>
   BatchGetBuilds [''mirror:1''] (Inr (example_builds ''FAILED'')) \<in>
     set (polled_run ''FAILED'' ''FAILED''
            ''CodeBuild FAILED. Build ID: mirror:1. Check CloudWatch logs.'') \<and>
   buildStatus_of (example_builds ''FAILED'') = Inr ''FAILED'' \<and>
   ''FAILED'' \<in> {''FAILED'', ''FAULT'', ''STOPPED'', ''TIMED_OUT''} \<and>
   length (callbacks (polled_run ''FAILED'' ''FAILED''
     ''CodeBuild FAILED. Build ID: mirror:1. Check CloudWatch logs.'')) = 1"
proof -
  have mem: "BatchGetBuilds [''mirror:1''] (Inr (example_builds ''FAILED'')) \<in>
      set (polled_run ''FAILED'' ''FAILED''
             ''CodeBuild FAILED. Build ID: mirror:1. Check CloudWatch logs.'')"
    by (simp add: polled_run_def)
  have st: "buildStatus_of (example_builds ''FAILED'') = Inr ''FAILED''"
    by (simp add: buildStatus_of_def example_builds_def getitem_def getitem0_def)
  have f: "''FAILED'' \<in> {''FAILED'', ''FAULT'', ''STOPPED'', ''TIMED_OUT''}"
    by simp
  from build_failed_reported [OF required_example(1) example_failed_run mem st f]
  show ?thesis
    using mem st example_failed_run by simp
qed

text \<open>
  C6, as the code has it. On every event that has the required fields the handler returns a
  payload: no exception leaves it. When the guarded block of a create event raises (in the
  trigger or while polling), no callback has been sent by then, the handler sends one
  callback with status \<^verbatim>\<open>FAILED\<close> and the message \<^verbatim>\<open>Error: \<close> followed by the text of the
  exception, and returns the payload \<^verbatim>\<open>error\<close>.
\<close>

theorem exceptions_caught_and_reported:
  assumes "required_fields event"
  shows "(\<exists>r seg. lambda_handler w event ctx h = (Inr r, h @ seg)) \<and>
         (\<forall>e seg. event ''RequestType'' = Some (PStr ''Create'') \<and>
            try_block w event ctx h = (Inl e, h @ seg) \<longrightarrow>
            callbacks seg = [] \<and>
            (\<exists>response. lambda_handler w event ctx h =
               (Inr ''{ \"status\": 500, \"message\": \"error\" }'',
                h @ seg @ [callback event ctx ''FAILED'' (''Error: '' @ str_exn e) response])))"
proof -
  have first: "\<exists>r seg. lambda_handler w event ctx h = (Inr r, h @ seg)"
    using lambda_handler_run [OF assms] by blast
  have second: "callbacks seg = [] \<and>
      (\<exists>response. lambda_handler w event ctx h =
         (Inr ''{ \"status\": 500, \"message\": \"error\" }'',
          h @ seg @ [callback event ctx ''FAILED'' (''Error: '' @ str_exn e) response]))"
    if create: "event ''RequestType'' = Some (PStr ''Create'')"
      and tb: "try_block w event ctx h = (Inl e, h @ seg)"
    for e seg
  proof -
    obtain seg' r where "try_block w event ctx h = (r, h @ seg')"
      and "create_run event ctx seg' r"
      using try_block_run [OF assms] by blast
    with tb have "create_run event ctx seg (Inl e)"
      by simp
    from create_run_callbacks [OF this] have none: "callbacks seg = []"
      by simp
    obtain ret response where
      "send w event ctx (PStr ''FAILED'') (PDict [(''message'', PStr (''Error: '' @ str_exn e))])
         PNone (PBool False) PNone (h @ seg) =
       (Inr ret, (h @ seg) @ [callback event ctx ''FAILED'' (''Error: '' @ str_exn e) response])"
      using send_callback [OF assms] by blast
    with create tb have "lambda_handler w event ctx h =
        (Inr ''{ \"status\": 500, \"message\": \"error\" }'',
         h @ seg @ [callback event ctx ''FAILED'' (''Error: '' @ str_exn e) response])"
      by (simp add: lambda_handler_def getitem_def Let_def)
    with none show ?thesis by blast
  qed
  from first second show ?thesis by blast
qed

theorem exceptions_caught_and_reported_witness:
  "required_fields example_event \<and>
   example_event ''RequestType'' = Some (PStr ''Create'') \<and>
   try_block (example_world (Inl (Exception ''AccessDenied'')) ''SUCCEEDED'' (Inr 200))
     example_event (example_context 840000) [] =
     (Inl (Exception ''AccessDenied''), [] @ error_run) \<and>
   callbacks error_run = [] \<and>
   (\<exists>response.
      lambda_handler (example_world (Inl (Exception ''AccessDenied'')) ''SUCCEEDED'' (Inr 200))
        example_event (example_context 840000) [] =
      (Inr ''{ \"status\": 500, \"message\": \"error\" }'',
       [] @ error_run @
         [callback example_event (example_context 840000) ''FAILED'' ''Error: AccessDenied''
            response]))"
proof -
  have create: "example_event ''RequestType'' = Some (PStr ''Create'')"
    by (simp add: example_event_def)
  from exceptions_caught_and_reported [OF required_example(1),
      of "example_world (Inl (Exception ''AccessDenied'')) ''SUCCEEDED'' (Inr 200)"
         "example_context 840000" "[]"]
    create example_error_run
  have "callbacks error_run = [] \<and>
    (\<exists>response.
      lambda_handler (example_world (Inl (Exception ''AccessDenied'')) ''SUCCEEDED'' (Inr 200))
        example_event (example_context 840000) [] =
      (Inr ''{ \"status\": 500, \"message\": \"error\" }'',
       [] @ error_run @
         [callback example_event (example_context 840000) ''FAILED''
            (''Error: '' @ str_exn (Exception ''AccessDenied'')) response]))"
    by blast
  with create example_error_run show ?thesis
    by simp
qed

text \<open>
  C6 as stated speaks of every event. The subscripts of \<^const>\<open>send\<close> stand outside every
  \<^verbatim>\<open>try\<close>: on a create event without a response URL the exception of the trigger is caught,
  and the \<^verbatim>\<open>KeyError\<close> that \<^const>\<open>send\<close> raises in the \<^verbatim>\<open>except\<close> branch leaves the
  handler, with no callback sent.
\<close>

theorem exception_escapes_without_response_url:
  "incomplete_event ''RequestType'' = Some (PStr ''Create'') \<and>
   try_block (example_world (Inl (Exception ''AccessDenied'')) ''SUCCEEDED'' (Inr 200))
     incomplete_event (example_context 840000) [] =
     (Inl (Exception ''AccessDenied''), error_run) \<and>
   lambda_handler (example_world (Inl (Exception ''AccessDenied'')) ''SUCCEEDED'' (Inr 200))
     incomplete_event (example_context 840000) [] =
     (Inl (KeyError ''ResponseURL''), error_run) \<and>
   callbacks error_run = []"
  by (simp add: incomplete_event_def error_run_def example_defs lambda_handler_def try_block_def
      send_def getitem_def callbacks_def Let_def)

text \<open>
  C7, as the code has it. When the event has its fields, \<^const>\<open>send\<close> never raises: an
  exception of the HTTP request is answered with the empty mapping, and a response with any
  status code, 2xx or not, with the report mapping itself (\<^verbatim>\<open>responseBody\<close>, not its
  serialisation \<^verbatim>\<open>json_responseBody\<close>). Whatever the HTTP pool answers, the handler returns
  the same payload.
\<close>

theorem delivery_failure_swallowed:
  assumes "event ''RequestType'' = Some requestType" and "event ''ResponseURL'' = Some url"
    and "event ''StackId'' = Some sid" and "event ''RequestId'' = Some rid"
    and "event ''LogicalResourceId'' = Some lid"
  shows "(let responseBody = PDict
                [(''Status'', responseStatus),
                 (''Reason'', py_or reason
                    (PStr (''See the details in CloudWatch Log Stream: '' @ log_stream_name ctx))),
                 (''PhysicalResourceId'', py_or physicalResourceId (PStr (log_stream_name ctx))),
                 (''StackId'', sid), (''RequestId'', rid), (''LogicalResourceId'', lid),
                 (''NoEcho'', noEcho), (''Data'', responseData)];
              body = json_dumps responseBody;
              headers = [(''content-type'', ''''),
                         (''content-length'', str_int (int (length body)))];
              response = http_request w h ''PUT'' url headers body
          in send w event ctx responseStatus responseData physicalResourceId noEcho reason h =
               (Inr (case response of Inl e \<Rightarrow> PDict [] | Inr status_code \<Rightarrow> responseBody),
                h @ [HttpRequest ''PUT'' url headers body response])) \<and>
         (\<forall>f. fst (lambda_handler (w\<lparr>http_request := f\<rparr>) event ctx h) =
                fst (lambda_handler w event ctx h))"
proof -
  from assms have "required_fields event"
    by (simp add: required_fields_def)
  from lambda_handler_http_irrelevant [OF this] send_no_raise [OF assms(2-5)]
  show ?thesis
    by (simp add: Let_def)
qed

theorem delivery_failure_swallowed_witness:
  "example_event ''RequestType'' = Some (PStr ''Create'') \<and>
   example_event ''ResponseURL'' = Some (PStr ''https://cfn.example/callback'') \<and>
   example_event ''StackId'' = Some (PStr ''stack-1'') \<and>
   example_event ''RequestId'' = Some (PStr ''request-1'') \<and>
   example_event ''LogicalResourceId'' = Some (PStr ''Mirror'') \<and>
   send (example_world example_started ''SUCCEEDED'' (Inl (Exception ''timed out'')))
     example_event (example_context 840000) (PStr ''SUCCESS'')
     (PDict [(''message'', PStr ''done'')]) PNone (PBool False) PNone [] =
     (Inr (PDict []),
      [callback example_event (example_context 840000) ''SUCCESS'' ''done''
         (Inl (Exception ''timed out''))]) \<and>
   send (example_world example_started ''SUCCEEDED'' (Inr 500))
     example_event (example_context 840000) (PStr ''SUCCESS'')
     (PDict [(''message'', PStr ''done'')]) PNone (PBool False) PNone [] =
     (Inr (callback_report example_event (example_context 840000) ''SUCCESS'' ''done''),
      [callback example_event (example_context 840000) ''SUCCESS'' ''done'' (Inr 500)]) \<and>
   fst (lambda_handler (example_world example_started ''SUCCEEDED'' (Inl (Exception ''timed out'')))
          example_event (example_context 840000) []) =
     Inr ''{ \"status\": 200, \"message\": \"success\" }''"
proof -
  have rt: "example_event ''RequestType'' = Some (PStr ''Create'')"
    by (simp add: example_event_def)
  note claim = delivery_failure_swallowed [OF rt example_fields]
  have raised:
    "send (example_world example_started ''SUCCEEDED'' (Inl (Exception ''timed out'')))
       example_event (example_context 840000) (PStr ''SUCCESS'')
       (PDict [(''message'', PStr ''done'')]) PNone (PBool False) PNone [] =
     (Inr (PDict []),
      [callback example_event (example_context 840000) ''SUCCESS'' ''done''
         (Inl (Exception ''timed out''))])"
    using claim [of "PStr ''SUCCESS''" PNone "example_context 840000" PNone "PBool False"
        "PDict [(''message'', PStr ''done'')]"
        "example_world example_started ''SUCCEEDED'' (Inl (Exception ''timed out''))" "[]"]
    by (simp add: callback_eq callback_report_def py_or_def example_fields example_world_def
        example_context_def Let_def)
  have refused:
    "send (example_world example_started ''SUCCEEDED'' (Inr 500))
       example_event (example_context 840000) (PStr ''SUCCESS'')
       (PDict [(''message'', PStr ''done'')]) PNone (PBool False) PNone [] =
     (Inr (callback_report example_event (example_context 840000) ''SUCCESS'' ''done''),
      [callback example_event (example_context 840000) ''SUCCESS'' ''done'' (Inr 500)])"
    using claim [of "PStr ''SUCCESS''" PNone "example_context 840000" PNone "PBool False"
        "PDict [(''message'', PStr ''done'')]"
        "example_world example_started ''SUCCEEDED'' (Inr 500)" "[]"]
    by (simp add: callback_eq callback_report_def py_or_def example_fields example_world_def
        example_context_def Let_def)
  have "example_world example_started ''SUCCEEDED'' (Inl (Exception ''timed out'')) =
      (example_world example_started ''SUCCEEDED'' (Inr 200))
        \<lparr>http_request := \<lambda>h method url headers body. Inl (Exception ''timed out'')\<rparr>"
    by (simp add: example_world_def)
  with claim [of "PStr ''SUCCESS''" PNone "example_context 840000" PNone "PBool False"
      "PDict [(''message'', PStr ''done'')]"
      "example_world example_started ''SUCCEEDED'' (Inr 200)" "[]"]
    example_succeeded_run
  have "fst (lambda_handler
      (example_world example_started ''SUCCEEDED'' (Inl (Exception ''timed out'')))
      example_event (example_context 840000) []) =
      Inr ''{ \"status\": 200, \"message\": \"success\" }''"
    by simp
  with rt example_fields raised refused show ?thesis
    by simp
qed

text \<open>
  C7 as stated says that \<^const>\<open>send\<close> returns the serialised report body. On a response
  with status 500 the request carries the serialised report, and what \<^const>\<open>send\<close> returns
  is the report mapping, which is not that string.
\<close>

theorem send_returns_mapping_not_serialisation:
  "snd (send (example_world example_started ''SUCCEEDED'' (Inr 500)) example_event
          (example_context 840000) (PStr ''SUCCESS'') (PDict [(''message'', PStr ''done'')])
          PNone (PBool False) PNone []) =
     [callback example_event (example_context 840000) ''SUCCESS'' ''done'' (Inr 500)] \<and>
   fst (send (example_world example_started ''SUCCEEDED'' (Inr 500)) example_event
          (example_context 840000) (PStr ''SUCCESS'') (PDict [(''message'', PStr ''done'')])
          PNone (PBool False) PNone []) =
     Inr (callback_report example_event (example_context 840000) ''SUCCESS'' ''done'') \<and>
   fst (send (example_world example_started ''SUCCEEDED'' (Inr 500)) example_event
          (example_context 840000) (PStr ''SUCCESS'') (PDict [(''message'', PStr ''done'')])
          PNone (PBool False) PNone []) \<noteq>
     Inr (PStr (json_dumps
       (callback_report example_event (example_context 840000) ''SUCCESS'' ''done'')))"
  by (simp add: send_no_raise [OF example_fields] callback_eq callback_report_def py_or_def
      example_fields example_world_def example_context_def Let_def)

text \<open>
  C8. Whenever \<^const>\<open>send\<close> builds a report (the event has a response URL and the three
  identifiers, whatever their values), the report it serialises and sends has the
  \<^verbatim>\<open>StackId\<close>, \<^verbatim>\<open>RequestId\<close> and \<^verbatim>\<open>LogicalResourceId\<close> of the event, for every status, data
  and optional argument. So has every callback of an invocation of the handler, on every exit
  path.
\<close>

theorem report_copies_event_ids:
  assumes "event ''ResponseURL'' = Some url" and "event ''StackId'' = Some sid"
    and "event ''RequestId'' = Some rid" and "event ''LogicalResourceId'' = Some lid"
  shows "(\<exists>ret headers fields response.
            send w event ctx responseStatus responseData physicalResourceId noEcho reason h =
              (Inr ret, h @ [HttpRequest ''PUT'' url headers (json_dumps (PDict fields)) response]) \<and>
            map_of fields ''StackId'' = Some sid \<and> map_of fields ''RequestId'' = Some rid \<and>
            map_of fields ''LogicalResourceId'' = Some lid \<and>
            (ret = PDict fields \<or> ret = PDict [])) \<and>
         (\<forall>requestType res seg a.
            event ''RequestType'' = Some requestType \<and>
            lambda_handler w event ctx h = (res, h @ seg) \<and> a \<in> set seg \<and> is_callback a \<longrightarrow>
            (\<exists>headers fields response.
               a = HttpRequest ''PUT'' url headers (json_dumps (PDict fields)) response \<and>
               map_of fields ''StackId'' = Some sid \<and> map_of fields ''RequestId'' = Some rid \<and>
               map_of fields ''LogicalResourceId'' = Some lid))"
proof -
  let ?fields = "[(''Status'', responseStatus),
      (''Reason'', py_or reason
         (PStr (''See the details in CloudWatch Log Stream: '' @ log_stream_name ctx))),
      (''PhysicalResourceId'', py_or physicalResourceId (PStr (log_stream_name ctx))),
      (''StackId'', sid), (''RequestId'', rid), (''LogicalResourceId'', lid),
      (''NoEcho'', noEcho), (''Data'', responseData)]"
  let ?headers = "[(''content-type'', ''''),
      (''content-length'', str_int (int (length (json_dumps (PDict ?fields)))))]"
  let ?response = "http_request w h ''PUT'' url ?headers (json_dumps (PDict ?fields))"
  let ?ret = "case ?response of Inl e \<Rightarrow> PDict [] | Inr status_code \<Rightarrow> PDict ?fields"
  have sent: "send w event ctx responseStatus responseData physicalResourceId noEcho reason h =
      (Inr ?ret, h @ [HttpRequest ''PUT'' url ?headers (json_dumps (PDict ?fields)) ?response])"
    by (rule send_no_raise [OF assms, unfolded Let_def])
  have ids: "map_of ?fields ''StackId'' = Some sid" "map_of ?fields ''RequestId'' = Some rid"
    "map_of ?fields ''LogicalResourceId'' = Some lid"
    by simp_all
  have either: "(case r of Inl e \<Rightarrow> a | Inr status_code \<Rightarrow> b) = b \<or>
      (case r of Inl e \<Rightarrow> a | Inr status_code \<Rightarrow> b) = a"
    for r :: "exn + int" and a b :: pyval
    by (cases r) simp_all
  have ret: "?ret = PDict ?fields \<or> ?ret = PDict []"
    by (rule either)
  have first: "\<exists>ret headers fields response.
      send w event ctx responseStatus responseData physicalResourceId noEcho reason h =
        (Inr ret, h @ [HttpRequest ''PUT'' url headers (json_dumps (PDict fields)) response]) \<and>
      map_of fields ''StackId'' = Some sid \<and> map_of fields ''RequestId'' = Some rid \<and>
      map_of fields ''LogicalResourceId'' = Some lid \<and>
      (ret = PDict fields \<or> ret = PDict [])"
    by (intro exI [of _ ?ret] exI [of _ ?headers] exI [of _ ?fields] exI [of _ ?response]
        conjI sent ids ret)
  have second: "\<exists>headers fields response.
      a = HttpRequest ''PUT'' url headers (json_dumps (PDict fields)) response \<and>
      map_of fields ''StackId'' = Some sid \<and> map_of fields ''RequestId'' = Some rid \<and>
      map_of fields ''LogicalResourceId'' = Some lid"
    if rt: "event ''RequestType'' = Some requestType"
      and run: "lambda_handler w event ctx h = (res, h @ seg)"
      and mem: "a \<in> set seg" and cb: "is_callback a"
    for requestType res seg a
  proof -
    from rt assms have req: "required_fields event"
      by (simp add: required_fields_def)
    obtain seg' r where "lambda_handler w event ctx h = (Inr r, h @ seg')"
      and "handler_run event ctx seg' r"
      using lambda_handler_run [OF req] by blast
    with run have "handler_run event ctx seg r"
      by simp
    from handler_run_callback_shape [OF this mem cb] obtain status message response where
      a: "a = callback event ctx status message response"
      by blast
    let ?sent = "[(''Status'', PStr status),
      (''Reason'', PStr (''See the details in CloudWatch Log Stream: '' @ log_stream_name ctx)),
      (''PhysicalResourceId'', PStr (log_stream_name ctx)),
      (''StackId'', sid), (''RequestId'', rid), (''LogicalResourceId'', lid),
      (''NoEcho'', PBool False), (''Data'', PDict [(''message'', PStr message)])]"
    have report: "callback_report event ctx status message = PDict ?sent"
      by (simp only: callback_report_def assms option.sel)
    have shape: "a = HttpRequest ''PUT'' url
        [(''content-type'', ''''),
         (''content-length'', str_int (int (length (json_dumps (PDict ?sent)))))]
        (json_dumps (PDict ?sent)) response"
      by (simp only: a callback_eq report assms option.sel)
    have sent_ids: "map_of ?sent ''StackId'' = Some sid" "map_of ?sent ''RequestId'' = Some rid"
      "map_of ?sent ''LogicalResourceId'' = Some lid"
      by simp_all
    show ?thesis
      by (intro exI [of _ "[(''content-type'', ''''),
            (''content-length'', str_int (int (length (json_dumps (PDict ?sent)))))]"]
          exI [of _ ?sent] exI [of _ response] conjI shape sent_ids)
  qed
  show ?thesis
  proof (intro conjI allI impI)
    show "\<exists>ret headers fields response.
      send w event ctx responseStatus responseData physicalResourceId noEcho reason h =
        (Inr ret, h @ [HttpRequest ''PUT'' url headers (json_dumps (PDict fields)) response]) \<and>
      map_of fields ''StackId'' = Some sid \<and> map_of fields ''RequestId'' = Some rid \<and>
      map_of fields ''LogicalResourceId'' = Some lid \<and>
      (ret = PDict fields \<or> ret = PDict [])"
      by (rule first)
  next
    fix requestType res seg a
    assume "event ''RequestType'' = Some requestType \<and>
      lambda_handler w event ctx h = (res, h @ seg) \<and> a \<in> set seg \<and> is_callback a"
    then show "\<exists>headers fields response.
      a = HttpRequest ''PUT'' url headers (json_dumps (PDict fields)) response \<and>
      map_of fields ''StackId'' = Some sid \<and> map_of fields ''RequestId'' = Some rid \<and>
      map_of fields ''LogicalResourceId'' = Some lid"
      using second by blast
  qed
qed

theorem report_copies_event_ids_witness:
  "example_event ''ResponseURL'' = Some (PStr ''https://cfn.example/callback'') \<and>
   example_event ''StackId'' = Some (PStr ''stack-1'') \<and>
   example_event ''RequestId'' = Some (PStr ''request-1'') \<and>
   example_event ''LogicalResourceId'' = Some (PStr ''Mirror'') \<and>
   (\<exists>ret headers fields response.
      send (example_world example_started ''SUCCEEDED'' (Inr 200)) example_event
        (example_context 840000) (PStr ''SUCCESS'') (PDict [(''message'', PStr ''done'')])
        PNone (PBool False) PNone [] =
        (Inr ret, [] @ [HttpRequest ''PUT'' (PStr ''https://cfn.example/callback'') headers
                          (json_dumps (PDict fields)) response]) \<and>
      map_of fields ''StackId'' = Some (PStr ''stack-1'') \<and>
      map_of fields ''RequestId'' = Some (PStr ''request-1'') \<and>
      map_of fields ''LogicalResourceId'' = Some (PStr ''Mirror'') \<and>
      (ret = PDict fields \<or> ret = PDict []))"
  using report_copies_event_ids [OF example_fields,
      where w = "example_world example_started ''SUCCEEDED'' (Inr 200)"
        and ctx = "example_context 840000" and responseStatus = "PStr ''SUCCESS''"
        and responseData = "PDict [(''message'', PStr ''done'')]"
        and physicalResourceId = PNone and noEcho = "PBool False" and reason = PNone
        and h = "[]"]
    example_fields
  by blast

text \<open>
  C9. The HTTP request \<^const>\<open>send\<close> issues is a \<^verbatim>\<open>PUT\<close> to the response URL of the event,
  its headers are an empty \<^verbatim>\<open>content-type\<close> and a \<^verbatim>\<open>content-length\<close> that is the number of
  bytes of the serialised report, and its body is the serialised report. The source counts the
  characters of the body; the body is ASCII, so they are as many as its bytes.
\<close>

theorem callback_http_request:
  assumes "event ''ResponseURL'' = Some url" and "event ''StackId'' = Some sid"
    and "event ''RequestId'' = Some rid" and "event ''LogicalResourceId'' = Some lid"
  shows "\<exists>body response.
           body = json_dumps (PDict
             [(''Status'', responseStatus),
              (''Reason'', py_or reason
                 (PStr (''See the details in CloudWatch Log Stream: '' @ log_stream_name ctx))),
              (''PhysicalResourceId'', py_or physicalResourceId (PStr (log_stream_name ctx))),
              (''StackId'', sid), (''RequestId'', rid), (''LogicalResourceId'', lid),
              (''NoEcho'', noEcho), (''Data'', responseData)]) \<and>
           snd (send w event ctx responseStatus responseData physicalResourceId noEcho reason h) =
             h @ [HttpRequest ''PUT'' url
                    [(''content-type'', ''''),
                     (''content-length'', str_int (int (length (utf8_encode body))))]
                    body response] \<and>
           list_all ascii body"
proof -
  let ?body = "json_dumps (PDict
      [(''Status'', responseStatus),
       (''Reason'', py_or reason
          (PStr (''See the details in CloudWatch Log Stream: '' @ log_stream_name ctx))),
       (''PhysicalResourceId'', py_or physicalResourceId (PStr (log_stream_name ctx))),
       (''StackId'', sid), (''RequestId'', rid), (''LogicalResourceId'', lid),
       (''NoEcho'', noEcho), (''Data'', responseData)])"
  let ?response = "http_request w h ''PUT'' url
      [(''content-type'', ''''), (''content-length'', str_int (int (length ?body)))] ?body"
  have "snd (send w event ctx responseStatus responseData physicalResourceId noEcho reason h) =
      h @ [HttpRequest ''PUT'' url
             [(''content-type'', ''''), (''content-length'', str_int (int (length ?body)))]
             ?body ?response]"
    unfolding send_no_raise [OF assms] Let_def by (rule snd_conv)
  then have "snd (send w event ctx responseStatus responseData physicalResourceId noEcho reason h) =
      h @ [HttpRequest ''PUT'' url
             [(''content-type'', ''''),
              (''content-length'', str_int (int (length (utf8_encode ?body))))]
             ?body ?response]"
    by (simp only: utf8_length_json_dumps)
  moreover have "list_all ascii ?body"
    by (rule ascii_json_dumps)
  ultimately show ?thesis
    by blast
qed

theorem callback_http_request_witness:
  "example_event ''ResponseURL'' = Some (PStr ''https://cfn.example/callback'') \<and>
   example_event ''StackId'' = Some (PStr ''stack-1'') \<and>
   example_event ''RequestId'' = Some (PStr ''request-1'') \<and>
   example_event ''LogicalResourceId'' = Some (PStr ''Mirror'') \<and>
   (\<exists>body response.
      body = json_dumps (callback_report example_event (example_context 840000)
               ''SUCCESS'' ''done'') \<and>
      snd (send (example_world example_started ''SUCCEEDED'' (Inr 200)) example_event
             (example_context 840000) (PStr ''SUCCESS'') (PDict [(''message'', PStr ''done'')])
             PNone (PBool False) PNone []) =
        [] @ [HttpRequest ''PUT'' (PStr ''https://cfn.example/callback'')
                [(''content-type'', ''''),
                 (''content-length'', str_int (int (length (utf8_encode body))))]
                body response] \<and>
      list_all ascii body)"
proof -
  have "callback_report example_event (example_context 840000) ''SUCCESS'' ''done'' =
      PDict
       [(''Status'', PStr ''SUCCESS''),
        (''Reason'', py_or PNone
           (PStr (''See the details in CloudWatch Log Stream: '' @
              log_stream_name (example_context 840000)))),
        (''PhysicalResourceId'', py_or PNone (PStr (log_stream_name (example_context 840000)))),
        (''StackId'', PStr ''stack-1''), (''RequestId'', PStr ''request-1''),
        (''LogicalResourceId'', PStr ''Mirror''),
        (''NoEcho'', PBool False), (''Data'', PDict [(''message'', PStr ''done'')])]"
    by (simp add: callback_report_def py_or_def example_fields)
  with callback_http_request [OF example_fields,
      where w = "example_world example_started ''SUCCEEDED'' (Inr 200)"
        and ctx = "example_context 840000" and responseStatus = "PStr ''SUCCESS''"
        and responseData = "PDict [(''message'', PStr ''done'')]"
        and physicalResourceId = PNone and noEcho = "PBool False" and reason = PNone
        and h = "[]"]
    example_fields
  show ?thesis
    by simp
qed

text \<open>
  C10. A reason that is \<^verbatim>\<open>None\<close> or the empty string gives the report the default reason,
  which names the log stream of the context, and a physical resource identifier that is
  \<^verbatim>\<open>None\<close> or the empty string gives it the log stream name; in both cases \<^const>\<open>send\<close>
  does exactly what it does when the argument is omitted (\<^verbatim>\<open>None\<close>).
\<close>

theorem falsy_arguments_take_defaults:
  assumes "event ''ResponseURL'' = Some url" and "event ''StackId'' = Some sid"
    and "event ''RequestId'' = Some rid" and "event ''LogicalResourceId'' = Some lid"
  shows "(\<exists>ret headers fields response.
            send w event ctx responseStatus responseData physicalResourceId noEcho reason h =
              (Inr ret, h @ [HttpRequest ''PUT'' url headers (json_dumps (PDict fields)) response]) \<and>
            (reason = PNone \<or> reason = PStr '''' \<longrightarrow>
               map_of fields ''Reason'' =
                 Some (PStr (''See the details in CloudWatch Log Stream: '' @
                   log_stream_name ctx))) \<and>
            (physicalResourceId = PNone \<or> physicalResourceId = PStr '''' \<longrightarrow>
               map_of fields ''PhysicalResourceId'' = Some (PStr (log_stream_name ctx)))) \<and>
         (reason = PNone \<or> reason = PStr '''' \<longrightarrow>
            send w event ctx responseStatus responseData physicalResourceId noEcho reason h =
            send w event ctx responseStatus responseData physicalResourceId noEcho PNone h) \<and>
         (physicalResourceId = PNone \<or> physicalResourceId = PStr '''' \<longrightarrow>
            send w event ctx responseStatus responseData physicalResourceId noEcho reason h =
            send w event ctx responseStatus responseData PNone noEcho reason h)"
proof -
  let ?fields = "[(''Status'', responseStatus),
      (''Reason'', py_or reason
         (PStr (''See the details in CloudWatch Log Stream: '' @ log_stream_name ctx))),
      (''PhysicalResourceId'', py_or physicalResourceId (PStr (log_stream_name ctx))),
      (''StackId'', sid), (''RequestId'', rid), (''LogicalResourceId'', lid),
      (''NoEcho'', noEcho), (''Data'', responseData)]"
  let ?headers = "[(''content-type'', ''''),
      (''content-length'', str_int (int (length (json_dumps (PDict ?fields)))))]"
  let ?response = "http_request w h ''PUT'' url ?headers (json_dumps (PDict ?fields))"
  have "send w event ctx responseStatus responseData physicalResourceId noEcho reason h =
      (Inr (case ?response of Inl e \<Rightarrow> PDict [] | Inr status_code \<Rightarrow> PDict ?fields),
       h @ [HttpRequest ''PUT'' url ?headers (json_dumps (PDict ?fields)) ?response])"
    by (rule send_no_raise [OF assms, unfolded Let_def])
  moreover have "reason = PNone \<or> reason = PStr '''' \<longrightarrow>
      map_of ?fields ''Reason'' =
        Some (PStr (''See the details in CloudWatch Log Stream: '' @ log_stream_name ctx))"
    by (auto simp: py_or_def)
  moreover have "physicalResourceId = PNone \<or> physicalResourceId = PStr '''' \<longrightarrow>
      map_of ?fields ''PhysicalResourceId'' = Some (PStr (log_stream_name ctx))"
    by (auto simp: py_or_def)
  ultimately have first: "\<exists>ret headers fields response.
      send w event ctx responseStatus responseData physicalResourceId noEcho reason h =
        (Inr ret, h @ [HttpRequest ''PUT'' url headers (json_dumps (PDict fields)) response]) \<and>
      (reason = PNone \<or> reason = PStr '''' \<longrightarrow>
         map_of fields ''Reason'' =
           Some (PStr (''See the details in CloudWatch Log Stream: '' @ log_stream_name ctx))) \<and>
      (physicalResourceId = PNone \<or> physicalResourceId = PStr '''' \<longrightarrow>
         map_of fields ''PhysicalResourceId'' = Some (PStr (log_stream_name ctx)))"
    by blast
  have falsy: "py_or (PStr '''') d = py_or PNone d" for d
    by (simp add: py_or_def)
  have second: "reason = PNone \<or> reason = PStr '''' \<longrightarrow>
      send w event ctx responseStatus responseData physicalResourceId noEcho reason h =
      send w event ctx responseStatus responseData physicalResourceId noEcho PNone h"
  proof
    assume "reason = PNone \<or> reason = PStr ''''"
    then show "send w event ctx responseStatus responseData physicalResourceId noEcho reason h =
      send w event ctx responseStatus responseData physicalResourceId noEcho PNone h"
    proof
      assume "reason = PNone"
      then show ?thesis by (simp only:)
    next
      assume "reason = PStr ''''"
      then show ?thesis by (simp only: send_def falsy)
    qed
  qed
  have third: "physicalResourceId = PNone \<or> physicalResourceId = PStr '''' \<longrightarrow>
      send w event ctx responseStatus responseData physicalResourceId noEcho reason h =
      send w event ctx responseStatus responseData PNone noEcho reason h"
  proof
    assume "physicalResourceId = PNone \<or> physicalResourceId = PStr ''''"
    then show "send w event ctx responseStatus responseData physicalResourceId noEcho reason h =
      send w event ctx responseStatus responseData PNone noEcho reason h"
    proof
      assume "physicalResourceId = PNone"
      then show ?thesis by (simp only:)
    next
      assume "physicalResourceId = PStr ''''"
      then show ?thesis by (simp only: send_def falsy)
    qed
  qed
  from first second third show ?thesis
    by blast
qed

theorem falsy_arguments_take_defaults_witness:
  "example_event ''ResponseURL'' = Some (PStr ''https://cfn.example/callback'') \<and>
   example_event ''StackId'' = Some (PStr ''stack-1'') \<and>
   example_event ''RequestId'' = Some (PStr ''request-1'') \<and>
   example_event ''LogicalResourceId'' = Some (PStr ''Mirror'') \<and>
   (\<exists>ret headers fields response.
      send (example_world example_started ''SUCCEEDED'' (Inr 200)) example_event
        (example_context 840000) (PStr ''SUCCESS'') (PDict [(''message'', PStr ''done'')])
        (PStr '''') (PBool False) (PStr '''') [] =
        (Inr ret, [] @ [HttpRequest ''PUT'' (PStr ''https://cfn.example/callback'') headers
                          (json_dumps (PDict fields)) response]) \<and>
      map_of fields ''Reason'' =
        Some (PStr (''See the details in CloudWatch Log Stream: '' @
          log_stream_name (example_context 840000))) \<and>
      map_of fields ''PhysicalResourceId'' =
        Some (PStr (log_stream_name (example_context 840000)))) \<and>
   send (example_world example_started ''SUCCEEDED'' (Inr 200)) example_event
     (example_context 840000) (PStr ''SUCCESS'') (PDict [(''message'', PStr ''done'')])
     (PStr '''') (PBool False) (PStr '''') [] =
   send (example_world example_started ''SUCCEEDED'' (Inr 200)) example_event
     (example_context 840000) (PStr ''SUCCESS'') (PDict [(''message'', PStr ''done'')])
     (PStr '''') (PBool False) PNone []"
proof -
  note claim = falsy_arguments_take_defaults [OF example_fields,
      where w = "example_world example_started ''SUCCEEDED'' (Inr 200)"
        and ctx = "example_context 840000" and responseStatus = "PStr ''SUCCESS''"
        and responseData = "PDict [(''message'', PStr ''done'')]"
        and physicalResourceId = "PStr ''''" and noEcho = "PBool False"
        and reason = "PStr ''''" and h = "[]"]
  have falsy: "PStr '''' = PNone \<or> PStr '''' = PStr ''''"
    by simp
  from claim falsy have sent: "\<exists>ret headers fields response.
      send (example_world example_started ''SUCCEEDED'' (Inr 200)) example_event
        (example_context 840000) (PStr ''SUCCESS'') (PDict [(''message'', PStr ''done'')])
        (PStr '''') (PBool False) (PStr '''') [] =
        (Inr ret, [] @ [HttpRequest ''PUT'' (PStr ''https://cfn.example/callback'') headers
                          (json_dumps (PDict fields)) response]) \<and>
      map_of fields ''Reason'' =
        Some (PStr (''See the details in CloudWatch Log Stream: '' @
          log_stream_name (example_context 840000))) \<and>
      map_of fields ''PhysicalResourceId'' =
        Some (PStr (log_stream_name (example_context 840000)))"
    by blast
  from claim falsy have same:
    "send (example_world example_started ''SUCCEEDED'' (Inr 200)) example_event
       (example_context 840000) (PStr ''SUCCESS'') (PDict [(''message'', PStr ''done'')])
       (PStr '''') (PBool False) (PStr '''') [] =
     send (example_world example_started ''SUCCEEDED'' (Inr 200)) example_event
       (example_context 840000) (PStr ''SUCCESS'') (PDict [(''message'', PStr ''done'')])
       (PStr '''') (PBool False) PNone []"
    by blast
  show ?thesis
    by (intro conjI example_fields sent same)
qed

end
